theory Spec2Isabelle
  imports Main
begin

section \<open>The microphone manager of src/utils/audio-manager.js\<close>

text \<open>
  The class \<open>AudioManager\<close> keeps the list of microphones, the active capture track and
  the outbound stream of a session. Its methods are asynchronous and talk to four
  collaborators: the browser (\<open>navigator.mediaDevices\<close>, \<open>navigator.userAgent\<close>,
  \<open>AFRAME.utils.device\<close>), the settings store, the audio system of the scene and the
  scene's event bus. The embedding below passes one explicit \<open>world\<close> through every
  method: the manager's fields, the store, the objects the code mutates through
  references (capture tracks, constraints objects) and a trace of every call that leaves
  the manager. The browser's answers (a granted or rejected capture request, the device
  list) are arguments of the methods. A method runs from its call to the settlement of
  its promise as one step. The two halves of \<open>fetchAudioTrack\<close> and \<open>selectMicDevice\<close>, before
  and after the capture request is settled, are given too, for calls that overlap.
\<close>

subsection \<open>Regular expressions used by the module\<close>

text \<open>
  The module uses four regular expressions, \<open>/\Wvive\W/i\<close>, \<open>/\Wrift\W/i\<close>, \<open>/Firefox/\<close>
  and \<open>/Oculus/\<close>: sequences of literal characters and of the class \<open>\W\<close>, with or without
  the flag \<open>i\<close>. A string is a list of 8-bit characters. \<open>\W\<close> is every character outside
  \<open>[A-Za-z0-9_]\<close>. Under the flag \<open>i\<close> two characters match when their canonical forms
  agree; the patterns hold ASCII letters only, and JavaScript never folds a character
  beyond ASCII onto an ASCII one, so the canonical form (a character code) changes
  \<open>a\<close>..\<open>z\<close> alone.
\<close>

datatype atom = Lit char | NonWord

datatype regex = Regex (atoms: "atom list") (ignoreCase: bool)

definition isWordChar :: "char \<Rightarrow> bool" where
  "isWordChar c =
     (let n = (of_char c :: nat)
      in (48 \<le> n \<and> n \<le> 57) \<or> (65 \<le> n \<and> n \<le> 90) \<or> n = 95 \<or> (97 \<le> n \<and> n \<le> 122))"

definition canonicalize :: "char \<Rightarrow> nat" where
  "canonicalize c =
     (let n = (of_char c :: nat)
      in if 97 \<le> n \<and> n \<le> 122 then n - 32 else n)"

fun atom_matches :: "bool \<Rightarrow> atom \<Rightarrow> char \<Rightarrow> bool" where
  "atom_matches i (Lit p) c = (if i then canonicalize p = canonicalize c else p = c)"
| "atom_matches i NonWord c = (\<not> isWordChar c)"

fun match_here :: "bool \<Rightarrow> atom list \<Rightarrow> string \<Rightarrow> bool" where
  "match_here i [] s = True"
| "match_here i (a # as) [] = False"
| "match_here i (a # as) (c # cs) = (atom_matches i a c \<and> match_here i as cs)"

fun search :: "bool \<Rightarrow> atom list \<Rightarrow> string \<Rightarrow> bool" where
  "search i as [] = match_here i as []"
| "search i as (c # cs) = (match_here i as (c # cs) \<or> search i as cs)"

text \<open>\<open>s.match(r)\<close> is truthy, and \<open>r.test(s)\<close> is true, when \<open>r\<close> matches somewhere in \<open>s\<close>.\<close>

definition regex_test :: "regex \<Rightarrow> string \<Rightarrow> bool" where
  "regex_test r s = search (ignoreCase r) (atoms r) s"

definition HMD_MIC_REGEXES :: "regex list" where
  "HMD_MIC_REGEXES =
     [Regex (NonWord # map Lit ''vive'' @ [NonWord]) True,
      Regex (NonWord # map Lit ''rift'' @ [NonWord]) True]"

subsection \<open>The platform\<close>

text \<open>
  \<open>AFRAME.utils.device.isMobile()\<close>, \<open>AFRAME.utils.device.isMobileVR()\<close> and
  \<open>navigator.userAgent\<close> are not part of the module: they are the fields of a platform
  description that every method takes.
\<close>

record platform =
  isMobile :: bool
  isMobileVR :: bool
  userAgent :: string

definition isFirefoxReality :: "platform \<Rightarrow> bool" where
  "isFirefoxReality p = (isMobileVR p \<and> regex_test (Regex (map Lit ''Firefox'') False) (userAgent p))"

definition isOculus :: "platform \<Rightarrow> bool" where
  "isOculus p = regex_test (Regex (map Lit ''Oculus'') False) (userAgent p)"

subsection \<open>Data\<close>

text \<open>
  \<open>enumerateDevices()\<close> yields records \<open>{deviceId, kind, label}\<close>; the manager caches
  the microphones among them as \<open>{value, label}\<close>.
\<close>

datatype MediaDeviceKind = audioinput | audiooutput | videoinput

record MediaDeviceInfo =
  info_deviceId :: string
  info_kind :: MediaDeviceKind
  info_label :: string

record mic_device =
  mic_value :: string
  mic_label :: string

text \<open>
  A constraints object \<open>{audio: {deviceId, echoCancellation, noiseSuppression,
  autoGainControl}}\<close>; a field that is absent is \<open>None\<close>. The device clause is
  \<open>{exact: [id]}\<close> or \<open>{ideal: id}\<close>.
\<close>

datatype device_clause = exact "string list" | ideal string

record audio_constraints =
  deviceId :: "device_clause option"
  echoCancellation :: "bool option"
  noiseSuppression :: "bool option"
  autoGainControl :: "bool option"

record constraints =
  audio :: audio_constraints

text \<open>
  \<open>this._store.state\<close>: the three preference flags the module reads (absent, \<open>true\<close> or
  \<open>false\<close>) and the last used microphone of the settings.
\<close>

record preferences =
  disableEchoCancellation :: "bool option"
  disableNoiseSuppression :: "bool option"
  disableAutoGainControl :: "bool option"

record settings =
  lastUsedMicDeviceId :: "string option"

record store_state =
  preferences :: preferences
  settings :: settings

text \<open>The two patches the module passes to \<open>this._store.update\<close>.\<close>

datatype patch =
    PreferencesPatch bool bool bool
  | SettingsPatch string

text \<open>
  A capture track is an object of the browser: its label, whether its \<open>readyState\<close> is
  \<open>live\<close>, and the listeners registered for its \<open>ended\<close> event. The only listener the
  module registers is the closure \<open>recreateAudioStream\<close>, which holds the reference of the
  constraints object of the call that created it. A capture stream holds one audio
  track, which is what \<open>getUserMedia\<close> delivers for a request with an \<open>audio\<close> member
  and no \<open>video\<close> member.
\<close>

datatype listener = recreateAudioStream_closure nat

record track =
  track_label :: string
  live :: bool
  ended_listeners :: "listener list"

datatype media_stream = MediaStream nat

text \<open>The outbound stream of the audio system is an object of its own.\<close>

datatype outbound_stream = OutboundStream nat

text \<open>The browser's answer to one \<open>getUserMedia\<close> request.\<close>

datatype response = Granted string | Rejected

text \<open>
  \<open>this.state\<close>, which \<open>shouldShowHmdMicWarning\<close> and \<open>hasHmdMicrophone\<close> read. The class
  never assigns it: it is \<open>None\<close> (undefined) unless the embedding application attaches
  one to the manager.
\<close>

record session_state =
  enterInVR :: bool
  state_micDevices :: "mic_device list"

text \<open>Every call that leaves the manager, in the order it happens.\<close>

datatype effect =
    TrackStop nat
  | StoreUpdate patch
  | GetUserMedia nat constraints
  | AddStreamToOutboundAudio string media_stream
  | SceneEmit string
  | EnumerateDevices

record world =
  micDevices :: "mic_device list"
  deviceId_ :: "string option"
  audioTrack :: "nat option"
  mediaStream :: "outbound_stream option"
  state :: "session_state option"
  store :: store_state
  outboundStream :: "outbound_stream option"
  tracks :: "nat \<Rightarrow> track"
  nextTrack :: nat
  heap :: "nat \<Rightarrow> constraints"
  nextRef :: nat
  trace :: "effect list"

datatype error = TypeError

subsection \<open>Collaborators\<close>

text \<open>
  Modelled from the spec: the settings store's \<open>update(partialPatch)\<close>, which is not in
  the module. It is a merge write: the keys of the patch replace the stored ones, every
  other key stays.
\<close>

fun merge_patch :: "patch \<Rightarrow> store_state \<Rightarrow> store_state" where
  "merge_patch (PreferencesPatch e n g) st =
     st\<lparr>preferences := (preferences st)\<lparr>disableEchoCancellation := Some e,
                                           disableNoiseSuppression := Some n,
                                           disableAutoGainControl := Some g\<rparr>\<rparr>"
| "merge_patch (SettingsPatch d) st =
     st\<lparr>settings := (settings st)\<lparr>lastUsedMicDeviceId := Some d\<rparr>\<rparr>"

definition update :: "patch \<Rightarrow> world \<Rightarrow> world" where
  "update pt w = w\<lparr>store := merge_patch pt (store w), trace := trace w @ [StoreUpdate pt]\<rparr>"

text \<open>\<open>this._scene.emit(name)\<close>.\<close>

definition emit :: "string \<Rightarrow> world \<Rightarrow> world" where
  "emit name w = w\<lparr>trace := trace w @ [SceneEmit name]\<rparr>"

text \<open>
  Modelled from the spec: the mixing subsystem's \<open>addStreamToOutboundAudio(channel,
  stream)\<close>, which is not in the module. It attaches the raw stream under the channel
  name and leaves the manager alone.
\<close>

definition addStreamToOutboundAudio :: "string \<Rightarrow> media_stream \<Rightarrow> world \<Rightarrow> world" where
  "addStreamToOutboundAudio channel s w = w\<lparr>trace := trace w @ [AddStreamToOutboundAudio channel s]\<rparr>"

text \<open>
  The browser's \<open>MediaStreamTrack.stop()\<close>: the track ends and no \<open>ended\<close> event is
  dispatched.
\<close>

definition stop :: "nat \<Rightarrow> world \<Rightarrow> world" where
  "stop t w = w\<lparr>tracks := (tracks w)(t := (tracks w t)\<lparr>live := False\<rparr>),
               trace := trace w @ [TrackStop t]\<rparr>"

text \<open>\<open>track.addEventListener("ended", l, { once: true })\<close>.\<close>

definition addEventListener :: "nat \<Rightarrow> listener \<Rightarrow> world \<Rightarrow> world" where
  "addEventListener t l w =
     w\<lparr>tracks := (tracks w)(t := (tracks w t)\<lparr>ended_listeners := ended_listeners (tracks w t) @ [l]\<rparr>)\<rparr>"

text \<open>
  \<open>navigator.mediaDevices.getUserMedia(c)\<close> for the constraints object at reference \<open>c\<close>:
  the request is recorded with the contents the object has at that moment; a granted
  request creates a live track with the given label and no listener.
\<close>

definition getUserMedia :: "nat \<Rightarrow> response \<Rightarrow> world \<Rightarrow> media_stream option \<times> world" where
  "getUserMedia c resp w =
     (let w1 = w\<lparr>trace := trace w @ [GetUserMedia c (heap w c)]\<rparr>
      in case resp of
           Rejected \<Rightarrow> (None, w1)
         | Granted l \<Rightarrow>
             (Some (MediaStream (nextTrack w1)),
              w1\<lparr>tracks := (tracks w1)(nextTrack w1 :=
                     \<lparr>track_label = l, live = True, ended_listeners = []\<rparr>),
                 nextTrack := Suc (nextTrack w1)\<rparr>))"

text \<open>\<open>stream.getAudioTracks()[0]\<close>: the audio track of a capture stream.\<close>

fun firstAudioTrack :: "media_stream \<Rightarrow> nat" where
  "firstAudioTrack (MediaStream t) = t"

text \<open>An object literal: a fresh constraints object on the heap.\<close>

definition newObject :: "constraints \<Rightarrow> world \<Rightarrow> nat \<times> world" where
  "newObject c w = (nextRef w, w\<lparr>heap := (heap w)(nextRef w := c), nextRef := Suc (nextRef w)\<rparr>)"

definition emptyAudio :: constraints where
  "emptyAudio = \<lparr>audio = \<lparr>deviceId = None, echoCancellation = None,
                          noiseSuppression = None, autoGainControl = None\<rparr>\<rparr>"

subsection \<open>The manager\<close>

text \<open>
  The constructor: no devices, no track, no stream. The store and the audio system come
  with the scene; no track exists yet and no call has been made.
\<close>

definition AudioManager :: "store_state \<Rightarrow> outbound_stream option \<Rightarrow> world" where
  "AudioManager st out =
     \<lparr>micDevices = [], deviceId_ = None, audioTrack = None, mediaStream = None,
      state = None, store = st, outboundStream = out,
      tracks = (\<lambda>t. \<lparr>track_label = [], live = False, ended_listeners = []\<rparr>),
      nextTrack = 0, heap = (\<lambda>r. emptyAudio), nextRef = 0, trace = []\<rparr>"

definition micLabelForAudioTrack :: "world \<Rightarrow> nat option \<Rightarrow> string" where
  "micLabelForAudioTrack w a =
     (case a of
        None \<Rightarrow> []
      | Some t \<Rightarrow> (if track_label (tracks w t) \<noteq> [] then track_label (tracks w t) else []))"

definition micDeviceIdForMicLabel :: "world \<Rightarrow> string \<Rightarrow> string option" where
  "micDeviceIdForMicLabel w l =
     (case map mic_value (filter (\<lambda>d. mic_label d = l) (micDevices w)) of
        [] \<Rightarrow> None
      | v # vs \<Rightarrow> Some v)"

definition micLabelForDeviceId :: "world \<Rightarrow> string \<Rightarrow> string option" where
  "micLabelForDeviceId w i =
     (case map mic_label (filter (\<lambda>d. mic_value d = i) (micDevices w)) of
        [] \<Rightarrow> None
      | l # ls \<Rightarrow> Some l)"

definition selectedMicLabel :: "world \<Rightarrow> string" where
  "selectedMicLabel w = micLabelForAudioTrack w (audioTrack w)"

definition selectedMicDeviceId :: "world \<Rightarrow> string option" where
  "selectedMicDeviceId w = micDeviceIdForMicLabel w (selectedMicLabel w)"

definition isAudioDeviceSelected :: "world \<Rightarrow> bool" where
  "isAudioDeviceSelected w = (audioTrack w \<noteq> None)"

text \<open>
  \<open>fetchMicDevices\<close>, given the list \<open>enumerateDevices()\<close> resolves to: the cache is
  replaced by the audio inputs, a device without label named after the first nine
  characters of its id.
\<close>

definition fetchMicDevices :: "MediaDeviceInfo list \<Rightarrow> world \<Rightarrow> world" where
  "fetchMicDevices mediaDevices w =
     w\<lparr>micDevices :=
         map (\<lambda>d. \<lparr>mic_value = info_deviceId d,
                   mic_label = (if info_label d \<noteq> [] then info_label d
                                else ''Mic ('' @ take 9 (info_deviceId d) @ '')'')\<rparr>)
             (filter (\<lambda>d. info_kind d = audioinput) mediaDevices),
       trace := trace w @ [EnumerateDevices]\<rparr>"

definition onDeviceChange :: "MediaDeviceInfo list \<Rightarrow> world \<Rightarrow> world" where
  "onDeviceChange mediaDevices w = emit ''devicechange'' (fetchMicDevices mediaDevices w)"

text \<open>\<open>fetchAudioTrack\<close>, lines 106 to 108: an active track is stopped first.\<close>

definition fetchAudioTrack_stop :: "world \<Rightarrow> world" where
  "fetchAudioTrack_stop w = (case audioTrack w of Some t \<Rightarrow> stop t w | None \<Rightarrow> w)"

text \<open>
  \<open>fetchAudioTrack\<close>, lines 110 to 129: the three toggles are written into the object at
  reference \<open>c\<close>; on Firefox Reality they are written again with the other polarity and
  the store is updated from them.
\<close>

definition fetchAudioTrack_constraints :: "platform \<Rightarrow> nat \<Rightarrow> world \<Rightarrow> world" where
  "fetchAudioTrack_constraints p c w =
     (let pr = preferences (store w);
          w1 = w\<lparr>heap := (heap w)(c := (heap w c)\<lparr>audio := (audio (heap w c))
                 \<lparr>echoCancellation := Some (if disableEchoCancellation pr = Some True then False else True),
                  noiseSuppression := Some (if disableNoiseSuppression pr = Some True then False else True),
                  autoGainControl := Some (if disableAutoGainControl pr = Some True then False else True)\<rparr>\<rparr>)\<rparr>
      in if isFirefoxReality p then
           (let e = (if disableEchoCancellation pr = Some False then True else False);
                n = (if disableNoiseSuppression pr = Some False then True else False);
                g = (if disableAutoGainControl pr = Some False then True else False);
                w2 = w1\<lparr>heap := (heap w1)(c := (heap w1 c)\<lparr>audio := (audio (heap w1 c))
                       \<lparr>echoCancellation := Some e, noiseSuppression := Some n,
                        autoGainControl := Some g\<rparr>\<rparr>)\<rparr>
            in update (PreferencesPatch (\<not> e) (\<not> n) (\<not> g)) w2)
         else w1)"

text \<open>
  \<open>this.audioTrack.addEventListener("ended", recreateAudioStream, { once: true })\<close>, with
  the closure over the constraints object at \<open>c\<close>.
\<close>

definition arm :: "nat \<Rightarrow> world \<Rightarrow> world" where
  "arm c w = (case audioTrack w of
                Some t \<Rightarrow> addEventListener t (recreateAudioStream_closure c) w
              | None \<Rightarrow> w)"

text \<open>\<open>fetchAudioTrack\<close>, lines 134 to 160: the request was granted.\<close>

definition fetchAudioTrack_success :: "platform \<Rightarrow> nat \<Rightarrow> media_stream \<Rightarrow> world \<Rightarrow> world" where
  "fetchAudioTrack_success p c newStream w =
     (let w1 = addStreamToOutboundAudio ''microphone'' newStream w;
          w2 = w1\<lparr>mediaStream := outboundStream w1\<rparr>;
          w3 = w2\<lparr>audioTrack := Some (firstAudioTrack newStream)\<rparr>
      in if isOculus p then arm c w3 else w3)"

text \<open>
  \<open>fetchAudioTrack(constraints = { audio: {} })\<close>: the argument is the reference of the
  caller's object, or absent, and then a fresh default object is made.
\<close>

definition fetchAudioTrack :: "platform \<Rightarrow> nat option \<Rightarrow> response \<Rightarrow> world \<Rightarrow> bool \<times> world" where
  "fetchAudioTrack p arg resp w =
     (let (c, w0) = (case arg of None \<Rightarrow> newObject emptyAudio w | Some r \<Rightarrow> (r, w));
          w1 = fetchAudioTrack_stop w0;
          w2 = fetchAudioTrack_constraints p c w1
      in case getUserMedia c resp w2 of
           (Some newStream, w3) \<Rightarrow> (True, fetchAudioTrack_success p c newStream w3)
         | (None, w3) \<Rightarrow> (False, w3\<lparr>audioTrack := None\<rparr>))"

text \<open>
  The closure \<open>recreateAudioStream\<close> of lines 142 to 155. A rejected request rejects the
  closure's promise, which nobody handles: nothing else happens.
\<close>

definition recreateAudioStream :: "nat \<Rightarrow> response \<Rightarrow> world \<Rightarrow> world" where
  "recreateAudioStream c resp w =
     (case getUserMedia c resp w of
        (None, w1) \<Rightarrow> w1
      | (Some newStream, w1) \<Rightarrow>
          (let w2 = w1\<lparr>audioTrack := Some (firstAudioTrack newStream)\<rparr>;
               w3 = addStreamToOutboundAudio ''microphone'' newStream w2;
               w4 = emit ''local-media-stream-created'' w3
           in arm c w4))"

fun run_listener :: "response \<Rightarrow> listener \<Rightarrow> world \<Rightarrow> world" where
  "run_listener resp (recreateAudioStream_closure c) w = recreateAudioStream c resp w"

text \<open>
  The browser ends track \<open>t\<close> from outside and dispatches \<open>ended\<close>: the track is no longer
  live, its listeners are all one-shot and so removed, and each runs, in the order of
  registration, with the browser's answer to the request it makes.
\<close>

definition dispatch_ended :: "nat \<Rightarrow> response \<Rightarrow> world \<Rightarrow> world" where
  "dispatch_ended t resp w =
     (let ls = ended_listeners (tracks w t);
          w1 = w\<lparr>tracks := (tracks w)(t := (tracks w t)\<lparr>live := False, ended_listeners := []\<rparr>)\<rparr>
      in fold (run_listener resp) ls w1)"

definition setupNewMediaStream :: "MediaDeviceInfo list \<Rightarrow> world \<Rightarrow> world" where
  "setupNewMediaStream mediaDevices w =
     (let w1 = fetchMicDevices mediaDevices w
      in case audioTrack w1 of
           Some t \<Rightarrow>
             (let micDeviceId = micDeviceIdForMicLabel w1 (micLabelForAudioTrack w1 (audioTrack w1));
                  w2 = (case micDeviceId of
                          Some d \<Rightarrow> (if d \<noteq> [] then update (SettingsPatch d) w1 else w1)
                        | None \<Rightarrow> w1)
              in emit ''local-media-stream-created'' w2)
         | None \<Rightarrow> w1)"

definition selectMicDevice ::
  "platform \<Rightarrow> string \<Rightarrow> response \<Rightarrow> MediaDeviceInfo list \<Rightarrow> world \<Rightarrow> bool \<times> world" where
  "selectMicDevice p i resp mediaDevices w =
     (let (c, w1) = newObject \<lparr>audio = \<lparr>deviceId = Some (exact [i]), echoCancellation = None,
                                         noiseSuppression = None, autoGainControl = None\<rparr>\<rparr> w;
          (result, w2) = fetchAudioTrack p (Some c) resp w1;
          w3 = setupNewMediaStream mediaDevices w2
      in (result, w3))"

definition get_lastUsedMicDeviceId :: "world \<Rightarrow> string option" where
  "get_lastUsedMicDeviceId w = lastUsedMicDeviceId (settings (store w))"

record default_result =
  hasAudio :: bool

definition setMediaStreamToDefault ::
  "platform \<Rightarrow> response \<Rightarrow> MediaDeviceInfo list \<Rightarrow> world \<Rightarrow> default_result \<times> world" where
  "setMediaStreamToDefault p resp mediaDevices w =
     (let (h, w2) =
            (case get_lastUsedMicDeviceId w of
               Some i \<Rightarrow>
                 (if i \<noteq> [] then
                    (let (c, w1) = newObject \<lparr>audio = \<lparr>deviceId = Some (ideal i),
                                       echoCancellation = None, noiseSuppression = None,
                                       autoGainControl = None\<rparr>\<rparr> w
                     in fetchAudioTrack p (Some c) resp w1)
                  else (let (c, w1) = newObject emptyAudio w in fetchAudioTrack p (Some c) resp w1))
             | None \<Rightarrow> (let (c, w1) = newObject emptyAudio w in fetchAudioTrack p (Some c) resp w1));
          w3 = setupNewMediaStream mediaDevices w2
      in (\<lparr>hasAudio = h\<rparr>, w3))"

text \<open>
  \<open>hasHmdMicrophone\<close> and \<open>shouldShowHmdMicWarning\<close> read \<open>this.state\<close>; reading a property
  of \<open>undefined\<close> throws, which rejects the promise.
\<close>

definition hasHmdMicrophone :: "world \<Rightarrow> error + bool" where
  "hasHmdMicrophone w =
     (case state w of
        None \<Rightarrow> Inl TypeError
      | Some st \<Rightarrow>
          Inr (find (\<lambda>d. find (\<lambda>r. regex_test r (mic_label d)) HMD_MIC_REGEXES \<noteq> None)
                    (state_micDevices st) \<noteq> None))"

definition shouldShowHmdMicWarning :: "platform \<Rightarrow> world \<Rightarrow> error + bool" where
  "shouldShowHmdMicWarning p w =
     (if isMobile p \<or> isMobileVR p then Inr False
      else case state w of
             None \<Rightarrow> Inl TypeError
           | Some st \<Rightarrow>
               (if \<not> enterInVR st then Inr False
                else case hasHmdMicrophone w of
                       Inl e \<Rightarrow> Inl e
                     | Inr h \<Rightarrow>
                         (if \<not> h then Inr False
                          else Inr (find (\<lambda>r. regex_test r (selectedMicLabel w)) HMD_MIC_REGEXES = None))))"

subsection \<open>The suspension at the capture request\<close>

text \<open>
  \<open>fetchAudioTrack\<close> is asynchronous: it runs up to \<open>await getUserMedia(constraints)\<close>
  (line 132), where it hands control back, and goes on when the browser settles the
  request. Other calls can run in between. The two halves of the request, of
  \<open>fetchAudioTrack\<close> and of \<open>selectMicDevice\<close> follow; run one right after the other they
  are the methods above.
\<close>

definition getUserMedia_call :: "nat \<Rightarrow> world \<Rightarrow> world" where
  "getUserMedia_call c w = w\<lparr>trace := trace w @ [GetUserMedia c (heap w c)]\<rparr>"

definition getUserMedia_settle :: "response \<Rightarrow> world \<Rightarrow> media_stream option \<times> world" where
  "getUserMedia_settle resp w =
     (case resp of
        Rejected \<Rightarrow> (None, w)
      | Granted l \<Rightarrow>
          (Some (MediaStream (nextTrack w)),
           w\<lparr>tracks := (tracks w)(nextTrack w :=
                  \<lparr>track_label = l, live = True, ended_listeners = []\<rparr>),
              nextTrack := Suc (nextTrack w)\<rparr>))"

text \<open>Lines 105 to 132, up to the \<open>await\<close>: the reference of the object and the world.\<close>

definition fetchAudioTrack_suspend :: "platform \<Rightarrow> nat option \<Rightarrow> world \<Rightarrow> nat \<times> world" where
  "fetchAudioTrack_suspend p arg w =
     (let (c, w0) = (case arg of None \<Rightarrow> newObject emptyAudio w | Some r \<Rightarrow> (r, w));
          w1 = fetchAudioTrack_stop w0;
          w2 = fetchAudioTrack_constraints p c w1
      in (c, getUserMedia_call c w2))"

text \<open>Lines 132 to 166, from the settlement of the request on.\<close>

definition fetchAudioTrack_resume :: "platform \<Rightarrow> nat \<Rightarrow> response \<Rightarrow> world \<Rightarrow> bool \<times> world" where
  "fetchAudioTrack_resume p c resp w =
     (case getUserMedia_settle resp w of
        (Some newStream, w3) \<Rightarrow> (True, fetchAudioTrack_success p c newStream w3)
      | (None, w3) \<Rightarrow> (False, w3\<lparr>audioTrack := None\<rparr>))"

definition selectMicDevice_suspend :: "platform \<Rightarrow> string \<Rightarrow> world \<Rightarrow> nat \<times> world" where
  "selectMicDevice_suspend p i w =
     (let (c, w1) = newObject \<lparr>audio = \<lparr>deviceId = Some (exact [i]), echoCancellation = None,
                                         noiseSuppression = None, autoGainControl = None\<rparr>\<rparr> w
      in fetchAudioTrack_suspend p (Some c) w1)"

definition selectMicDevice_resume ::
  "platform \<Rightarrow> nat \<Rightarrow> response \<Rightarrow> MediaDeviceInfo list \<Rightarrow> world \<Rightarrow> bool \<times> world" where
  "selectMicDevice_resume p c resp mediaDevices w =
     (let (result, w2) = fetchAudioTrack_resume p c resp w;
          w3 = setupNewMediaStream mediaDevices w2
      in (result, w3))"

subsection \<open>Reachable worlds\<close>

text \<open>
  The worlds a manager can be in when no operation overlaps another: it is constructed,
  its methods are called one after the other, each settled before the next starts, with
  any arguments and any answers of the browser, the browser reports a
  device change or ends a live track from outside, the application attaches a session
  state, the store is edited elsewhere (the preferences screen), and a caller of
  \<open>fetchAudioTrack\<close> makes a constraints object, writes to one it holds, and passes one
  or none to the method.
\<close>

inductive reachable :: "platform \<Rightarrow> world \<Rightarrow> bool" for p :: platform where
  constructed: "reachable p (AudioManager st out)"
| fetched: "reachable p w \<Longrightarrow> r < nextRef w \<Longrightarrow>
    reachable p (snd (fetchAudioTrack p (Some r) resp w))"
| fetched_default: "reachable p w \<Longrightarrow> reachable p (snd (fetchAudioTrack p None resp w))"
| selected: "reachable p w \<Longrightarrow> reachable p (snd (selectMicDevice p i resp ds w))"
| defaulted: "reachable p w \<Longrightarrow> reachable p (snd (setMediaStreamToDefault p resp ds w))"
| devicechange: "reachable p w \<Longrightarrow> reachable p (onDeviceChange ds w)"
| track_ended: "reachable p w \<Longrightarrow> live (tracks w t) \<Longrightarrow> reachable p (dispatch_ended t resp w)"
| state_attached: "reachable p w \<Longrightarrow> reachable p (w\<lparr>state := s\<rparr>)"
| store_edited: "reachable p w \<Longrightarrow> reachable p (w\<lparr>store := st\<rparr>)"
| object_made: "reachable p w \<Longrightarrow> reachable p (snd (newObject c w))"
| object_written: "reachable p w \<Longrightarrow> r < nextRef w \<Longrightarrow>
    reachable p (w\<lparr>heap := (heap w)(r := c)\<rparr>)"

subsection \<open>Notions used in the statements\<close>

text \<open>
  The reference \<open>fetchAudioTrack\<close> works on and the contents that object has at the call:
  the caller's, or the fresh default object.
\<close>

definition arg_ref :: "nat option \<Rightarrow> world \<Rightarrow> nat" where
  "arg_ref arg w = (case arg of None \<Rightarrow> nextRef w | Some r \<Rightarrow> r)"

definition arg_object :: "nat option \<Rightarrow> world \<Rightarrow> constraints" where
  "arg_object arg w = (case arg of None \<Rightarrow> emptyAudio | Some r \<Rightarrow> heap w r)"

text \<open>
  The effective value of a toggle for a stored disable flag: enabled unless the flag is
  \<open>true\<close>, and on Firefox Reality enabled only if the flag is \<open>false\<close>.
\<close>

definition enabled :: "platform \<Rightarrow> bool option \<Rightarrow> bool" where
  "enabled p flag = (if isFirefoxReality p then flag = Some False else flag \<noteq> Some True)"

definition with_toggles :: "platform \<Rightarrow> preferences \<Rightarrow> constraints \<Rightarrow> constraints" where
  "with_toggles p pr v =
     v\<lparr>audio := (audio v)\<lparr>echoCancellation := Some (enabled p (disableEchoCancellation pr)),
                            noiseSuppression := Some (enabled p (disableNoiseSuppression pr)),
                            autoGainControl := Some (enabled p (disableAutoGainControl pr))\<rparr>\<rparr>"

definition corrected :: "platform \<Rightarrow> preferences \<Rightarrow> patch" where
  "corrected p pr = PreferencesPatch (\<not> enabled p (disableEchoCancellation pr))
                                     (\<not> enabled p (disableNoiseSuppression pr))
                                     (\<not> enabled p (disableAutoGainControl pr))"

text \<open>The object literals of \<open>selectMicDevice\<close> and \<open>setMediaStreamToDefault\<close>.\<close>

definition exact_constraints :: "string \<Rightarrow> constraints" where
  "exact_constraints i = \<lparr>audio = \<lparr>deviceId = Some (exact [i]), echoCancellation = None,
                                     noiseSuppression = None, autoGainControl = None\<rparr>\<rparr>"

definition default_constraints :: "world \<Rightarrow> constraints" where
  "default_constraints w =
     (case get_lastUsedMicDeviceId w of
        Some i \<Rightarrow> (if i \<noteq> [] then \<lparr>audio = \<lparr>deviceId = Some (ideal i), echoCancellation = None,
                                   noiseSuppression = None, autoGainControl = None\<rparr>\<rparr> else emptyAudio)
      | None \<Rightarrow> emptyAudio)"

text \<open>What a trace holds: the tracks stopped and the contents of the capture requests.\<close>

fun stopped :: "effect list \<Rightarrow> nat list" where
  "stopped [] = []"
| "stopped (TrackStop t # es) = t # stopped es"
| "stopped (e # es) = stopped es"

fun requested :: "effect list \<Rightarrow> constraints list" where
  "requested [] = []"
| "requested (GetUserMedia c v # es) = v # requested es"
| "requested (e # es) = requested es"

text \<open>
  The invariant of the reachable worlds: a live track is the active one, a track has at
  most one listener, an active track comes with the outbound stream of the audio system,
  and no cached microphone has an empty label.
\<close>

definition well_formed :: "world \<Rightarrow> bool" where
  "well_formed w =
     ((\<forall>t. live (tracks w t) \<longrightarrow> audioTrack w = Some t) \<and>
      (\<forall>t. length (ended_listeners (tracks w t)) \<le> 1) \<and>
      (audioTrack w \<noteq> None \<longrightarrow> mediaStream w = outboundStream w) \<and>
      (\<forall>d \<in> set (micDevices w). mic_label d \<noteq> []))"

subsection \<open>Concrete platforms, stores and devices\<close>

definition desktop :: platform where
  "desktop = \<lparr>isMobile = False, isMobileVR = False, userAgent = ''Mozilla/5.0 Chrome/80.0''\<rparr>"

definition oculus_browser :: platform where
  "oculus_browser = \<lparr>isMobile = False, isMobileVR = False,
                     userAgent = ''Mozilla/5.0 OculusBrowser/6.0''\<rparr>"

definition firefox_reality :: platform where
  "firefox_reality = \<lparr>isMobile = False, isMobileVR = True,
                      userAgent = ''Mozilla/5.0 Mobile VR Firefox/70.0''\<rparr>"

definition fresh_store :: store_state where
  "fresh_store = \<lparr>preferences = \<lparr>disableEchoCancellation = None, disableNoiseSuppression = None,
                                  disableAutoGainControl = None\<rparr>,
                  settings = \<lparr>lastUsedMicDeviceId = None\<rparr>\<rparr>"

definition fresh_manager :: world where
  "fresh_manager = AudioManager fresh_store (Some (OutboundStream 0))"

definition granted_once :: world where
  "granted_once = snd (fetchAudioTrack desktop None (Granted ''Generic Mic'') fresh_manager)"

definition then_denied :: world where
  "then_denied = snd (fetchAudioTrack desktop None Rejected granted_once)"

definition claimed_devices :: "MediaDeviceInfo list" where
  "claimed_devices =
     [\<lparr>info_deviceId = ''a1'', info_kind = audioinput, info_label = ''Vive Pro Mic''\<rparr>,
      \<lparr>info_deviceId = ''b2'', info_kind = audioinput, info_label = ''Generic Mic''\<rparr>]"

text \<open>
  A desktop browser with the two microphones of that list: the manager is constructed and
  the microphone with id \<open>i\<close>, whose track carries the label \<open>l\<close>, is selected.
\<close>

definition claimed_selection :: "string \<Rightarrow> string \<Rightarrow> world" where
  "claimed_selection i l = snd (selectMicDevice desktop i (Granted l) claimed_devices fresh_manager)"

definition vive_devices :: "MediaDeviceInfo list" where
  "vive_devices =
     [\<lparr>info_deviceId = ''a1'', info_kind = audioinput, info_label = ''Microphone (HTC Vive)''\<rparr>,
      \<lparr>info_deviceId = ''b2'', info_kind = audioinput, info_label = ''Generic Mic''\<rparr>]"

text \<open>
  Firefox Reality with an empty preference store: a caller makes the object \<open>{audio: {}}\<close>
  and fetches with it, and then a second time.
\<close>

definition corrected_once :: world where
  "corrected_once =
     snd (fetchAudioTrack firefox_reality (Some 0) (Granted ''Headset Mic'')
            (snd (newObject emptyAudio fresh_manager)))"

definition corrected_twice :: world where
  "corrected_twice = snd (fetchAudioTrack firefox_reality (Some 0) (Granted ''Headset Mic'') corrected_once)"

text \<open>
  Oculus Browser: a granted fetch, then the browser ends the track from outside, twice.
\<close>

definition armed_once :: world where
  "armed_once = snd (fetchAudioTrack oculus_browser None (Granted ''Headset Mic'') fresh_manager)"

definition recovered_once :: world where
  "recovered_once = dispatch_ended 0 (Granted ''Headset Mic'') armed_once"

definition recovered_twice :: world where
  "recovered_twice = dispatch_ended (Suc 0) (Granted ''Headset Mic'') recovered_once"

text \<open>A desktop browser: the same microphone is selected twice.\<close>

definition selected_once :: world where
  "selected_once = snd (selectMicDevice desktop ''b2'' (Granted ''Generic Mic'') vive_devices fresh_manager)"

definition selected_twice :: world where
  "selected_twice = snd (selectMicDevice desktop ''b2'' (Granted ''Generic Mic'') vive_devices selected_once)"

text \<open>
  Two calls of \<open>selectMicDevice\<close> that overlap, on the manager that holds track 0: the
  second call starts while the first waits for its capture request; then the first
  request is granted and the first call finishes, then the second.
\<close>

definition overlapping_selects :: world where
  "overlapping_selects =
     (let (c1, w1) = selectMicDevice_suspend desktop ''b2'' selected_once;
          (c2, w2) = selectMicDevice_suspend desktop ''a1'' w1;
          w3 = snd (selectMicDevice_resume desktop c1 (Granted ''Generic Mic'') vive_devices w2)
      in snd (selectMicDevice_resume desktop c2 (Granted ''Microphone (HTC Vive)'') vive_devices w3))"

text \<open>
  The device id that \<open>setupNewMediaStream\<close> writes to the settings: the one the label of
  the active track resolves to in the refreshed device list, if it is not empty.
\<close>

definition persisted :: "MediaDeviceInfo list \<Rightarrow> world \<Rightarrow> string option" where
  "persisted ds w =
     (case micDeviceIdForMicLabel (fetchMicDevices ds w) (selectedMicLabel w) of
        Some d \<Rightarrow> (if d \<noteq> [] then Some d else None)
      | None \<Rightarrow> None)"

text \<open>A manager whose settings hold the last used microphone \<open>mic-42\<close>.\<close>

definition stored_mic_42 :: world where
  "stored_mic_42 = fresh_manager\<lparr>store := fresh_store\<lparr>settings := \<lparr>lastUsedMicDeviceId = Some ''mic-42''\<rparr>\<rparr>\<rparr>"

text \<open>The patches written to the store and the events emitted, as a trace holds them.\<close>

definition written :: "effect list \<Rightarrow> patch list" where
  "written es = [pt. StoreUpdate pt \<leftarrow> es]"

definition emitted :: "effect list \<Rightarrow> string list" where
  "emitted es = [n. SceneEmit n \<leftarrow> es]"

text \<open>
  Oculus Browser: a caller makes a constraints object and passes it to \<open>fetchAudioTrack\<close>.
\<close>

definition callers_object :: world where
  "callers_object = snd (newObject (exact_constraints ''b2'') fresh_manager)"

definition fetched_by_reference :: world where
  "fetched_by_reference =
     snd (fetchAudioTrack oculus_browser (Some 0) (Granted ''Generic Mic'') callers_object)"

section \<open>The operations, field by field\<close>

lemma stop_fields:
  "audioTrack (fetchAudioTrack_stop w) = audioTrack w"
  "mediaStream (fetchAudioTrack_stop w) = mediaStream w"
  "outboundStream (fetchAudioTrack_stop w) = outboundStream w"
  "micDevices (fetchAudioTrack_stop w) = micDevices w"
  "store (fetchAudioTrack_stop w) = store w"
  "heap (fetchAudioTrack_stop w) = heap w"
  "nextTrack (fetchAudioTrack_stop w) = nextTrack w"
  "nextRef (fetchAudioTrack_stop w) = nextRef w"
  "state (fetchAudioTrack_stop w) = state w"
  by (simp_all add: fetchAudioTrack_stop_def stop_def split: option.splits)

lemma stop_tracks:
  "tracks (fetchAudioTrack_stop w) =
     (case audioTrack w of Some t \<Rightarrow> (tracks w)(t := (tracks w t)\<lparr>live := False\<rparr>) | None \<Rightarrow> tracks w)"
  by (simp add: fetchAudioTrack_stop_def stop_def split: option.splits)

lemma stop_trace:
  "trace (fetchAudioTrack_stop w) =
     trace w @ (case audioTrack w of Some t \<Rightarrow> [TrackStop t] | None \<Rightarrow> [])"
  by (simp add: fetchAudioTrack_stop_def stop_def split: option.splits)

lemma constraints_fields:
  "audioTrack (fetchAudioTrack_constraints p c w) = audioTrack w"
  "mediaStream (fetchAudioTrack_constraints p c w) = mediaStream w"
  "outboundStream (fetchAudioTrack_constraints p c w) = outboundStream w"
  "micDevices (fetchAudioTrack_constraints p c w) = micDevices w"
  "tracks (fetchAudioTrack_constraints p c w) = tracks w"
  "nextTrack (fetchAudioTrack_constraints p c w) = nextTrack w"
  "nextRef (fetchAudioTrack_constraints p c w) = nextRef w"
  "state (fetchAudioTrack_constraints p c w) = state w"
  by (simp_all add: fetchAudioTrack_constraints_def update_def Let_def)

lemma constraints_heap:
  "heap (fetchAudioTrack_constraints p c w) =
     (heap w)(c := with_toggles p (preferences (store w)) (heap w c))"
  by (simp add: fetchAudioTrack_constraints_def with_toggles_def enabled_def update_def Let_def)

lemma constraints_store:
  "store (fetchAudioTrack_constraints p c w) =
     (if isFirefoxReality p then merge_patch (corrected p (preferences (store w))) (store w)
      else store w)"
  by (simp add: fetchAudioTrack_constraints_def corrected_def enabled_def update_def Let_def)

lemma constraints_trace:
  "trace (fetchAudioTrack_constraints p c w) =
     trace w @ (if isFirefoxReality p then [StoreUpdate (corrected p (preferences (store w)))] else [])"
  by (simp add: fetchAudioTrack_constraints_def corrected_def enabled_def update_def Let_def)

lemmas phase_simps = stop_fields stop_tracks stop_trace constraints_fields constraints_heap
  constraints_store constraints_trace

lemmas fetch_unfold = fetchAudioTrack_def getUserMedia_def newObject_def Let_def
  fetchAudioTrack_success_def arm_def addEventListener_def addStreamToOutboundAudio_def
  arg_ref_def arg_object_def

lemma fetch_result: "fst (fetchAudioTrack p arg resp w) = (resp \<noteq> Rejected)"
  by (simp add: fetchAudioTrack_def getUserMedia_def newObject_def Let_def
           split: option.splits response.splits prod.splits)

lemma fetch_rejected:
  "audioTrack (snd (fetchAudioTrack p arg Rejected w)) = None"
  "mediaStream (snd (fetchAudioTrack p arg Rejected w)) = mediaStream w"
  "outboundStream (snd (fetchAudioTrack p arg Rejected w)) = outboundStream w"
  "micDevices (snd (fetchAudioTrack p arg Rejected w)) = micDevices w"
  "state (snd (fetchAudioTrack p arg Rejected w)) = state w"
  "nextTrack (snd (fetchAudioTrack p arg Rejected w)) = nextTrack w"
  "tracks (snd (fetchAudioTrack p arg Rejected w)) =
     (case audioTrack w of Some t \<Rightarrow> (tracks w)(t := (tracks w t)\<lparr>live := False\<rparr>) | None \<Rightarrow> tracks w)"
  by (simp_all add: fetch_unfold phase_simps split: option.splits prod.splits)

lemma fetch_granted:
  "audioTrack (snd (fetchAudioTrack p arg (Granted l) w)) = Some (nextTrack w)"
  "mediaStream (snd (fetchAudioTrack p arg (Granted l) w)) = outboundStream w"
  "outboundStream (snd (fetchAudioTrack p arg (Granted l) w)) = outboundStream w"
  "micDevices (snd (fetchAudioTrack p arg (Granted l) w)) = micDevices w"
  "state (snd (fetchAudioTrack p arg (Granted l) w)) = state w"
  "nextTrack (snd (fetchAudioTrack p arg (Granted l) w)) = Suc (nextTrack w)"
  "tracks (snd (fetchAudioTrack p arg (Granted l) w)) =
     (case audioTrack w of Some t \<Rightarrow> (tracks w)(t := (tracks w t)\<lparr>live := False\<rparr>) | None \<Rightarrow> tracks w)
       (nextTrack w := \<lparr>track_label = l, live = True,
          ended_listeners = (if isOculus p then [recreateAudioStream_closure (arg_ref arg w)] else [])\<rparr>)"
  by (simp_all add: fetch_unfold phase_simps split: option.splits prod.splits)

lemma fetch_heap:
  "heap (snd (fetchAudioTrack p arg resp w)) =
     (heap w)(arg_ref arg w := with_toggles p (preferences (store w)) (arg_object arg w))"
  by (simp add: fetch_unfold phase_simps split: option.splits prod.splits response.splits)

lemma fetch_store:
  "store (snd (fetchAudioTrack p arg resp w)) =
     (if isFirefoxReality p then merge_patch (corrected p (preferences (store w))) (store w)
      else store w)"
  by (simp add: fetch_unfold phase_simps split: option.splits prod.splits response.splits)

lemma fetch_nextRef:
  "nextRef (snd (fetchAudioTrack p arg resp w)) =
     (case arg of None \<Rightarrow> Suc (nextRef w) | Some r \<Rightarrow> nextRef w)"
  by (simp add: fetch_unfold phase_simps split: option.splits prod.splits response.splits)

lemma fetch_trace:
  "trace (snd (fetchAudioTrack p arg resp w)) =
     trace w
     @ (case audioTrack w of Some t \<Rightarrow> [TrackStop t] | None \<Rightarrow> [])
     @ (if isFirefoxReality p then [StoreUpdate (corrected p (preferences (store w)))] else [])
     @ [GetUserMedia (arg_ref arg w) (with_toggles p (preferences (store w)) (arg_object arg w))]
     @ (case resp of Granted l \<Rightarrow> [AddStreamToOutboundAudio ''microphone'' (MediaStream (nextTrack w))]
                   | Rejected \<Rightarrow> [])"
  by (simp add: fetch_unfold phase_simps split: option.splits prod.splits response.splits)

lemma setup_fields:
  "audioTrack (setupNewMediaStream ds w) = audioTrack w"
  "mediaStream (setupNewMediaStream ds w) = mediaStream w"
  "outboundStream (setupNewMediaStream ds w) = outboundStream w"
  "tracks (setupNewMediaStream ds w) = tracks w"
  "nextTrack (setupNewMediaStream ds w) = nextTrack w"
  "heap (setupNewMediaStream ds w) = heap w"
  "nextRef (setupNewMediaStream ds w) = nextRef w"
  "state (setupNewMediaStream ds w) = state w"
  "micDevices (setupNewMediaStream ds w) = micDevices (fetchMicDevices ds w)"
  by (simp_all add: setupNewMediaStream_def fetchMicDevices_def update_def emit_def Let_def
        split: option.splits)

lemma fetchMicDevices_labels:
  "\<forall>d \<in> set (micDevices (fetchMicDevices ds w)). mic_label d \<noteq> []"
  by (auto simp add: fetchMicDevices_def)

lemma selectMicDevice_eq:
  "selectMicDevice p i resp ds w =
     (fst (fetchAudioTrack p (Some (nextRef w)) resp (snd (newObject (exact_constraints i) w))),
      setupNewMediaStream ds
        (snd (fetchAudioTrack p (Some (nextRef w)) resp (snd (newObject (exact_constraints i) w)))))"
  by (simp add: selectMicDevice_def exact_constraints_def newObject_def Let_def split_beta)

lemma setMediaStreamToDefault_eq:
  "setMediaStreamToDefault p resp ds w =
     (\<lparr>hasAudio = fst (fetchAudioTrack p (Some (nextRef w)) resp (snd (newObject (default_constraints w) w)))\<rparr>,
      setupNewMediaStream ds
        (snd (fetchAudioTrack p (Some (nextRef w)) resp (snd (newObject (default_constraints w) w)))))"
  by (simp add: setMediaStreamToDefault_def default_constraints_def newObject_def Let_def split_beta
           split: option.splits)

lemma recreate_rejected:
  "recreateAudioStream c Rejected w = w\<lparr>trace := trace w @ [GetUserMedia c (heap w c)]\<rparr>"
  by (simp add: recreateAudioStream_def getUserMedia_def)

lemma recreate_granted:
  "audioTrack (recreateAudioStream c (Granted l) w) = Some (nextTrack w)"
  "mediaStream (recreateAudioStream c (Granted l) w) = mediaStream w"
  "outboundStream (recreateAudioStream c (Granted l) w) = outboundStream w"
  "micDevices (recreateAudioStream c (Granted l) w) = micDevices w"
  "state (recreateAudioStream c (Granted l) w) = state w"
  "heap (recreateAudioStream c (Granted l) w) = heap w"
  "store (recreateAudioStream c (Granted l) w) = store w"
  "nextTrack (recreateAudioStream c (Granted l) w) = Suc (nextTrack w)"
  "tracks (recreateAudioStream c (Granted l) w) =
     (tracks w)(nextTrack w := \<lparr>track_label = l, live = True,
                                 ended_listeners = [recreateAudioStream_closure c]\<rparr>)"
  "trace (recreateAudioStream c (Granted l) w) =
     trace w @ [GetUserMedia c (heap w c),
                AddStreamToOutboundAudio ''microphone'' (MediaStream (nextTrack w)),
                SceneEmit ''local-media-stream-created'']"
  by (simp_all add: recreateAudioStream_def getUserMedia_def Let_def arm_def addEventListener_def
        addStreamToOutboundAudio_def emit_def)

section \<open>The invariant of the reachable worlds\<close>

lemma well_formed_AudioManager: "well_formed (AudioManager st out)"
  by (simp add: well_formed_def AudioManager_def)

lemma well_formed_fetchAudioTrack:
  assumes "well_formed w"
  shows "well_formed (snd (fetchAudioTrack p arg resp w))"
proof (cases resp)
  case Rejected
  with assms show ?thesis
    by (auto simp add: well_formed_def fetch_rejected split: option.splits)
next
  case (Granted l)
  with assms show ?thesis
    by (auto simp add: well_formed_def fetch_granted split: option.splits)
qed

lemma well_formed_setupNewMediaStream:
  "well_formed w \<Longrightarrow> well_formed (setupNewMediaStream ds w)"
  using fetchMicDevices_labels [of ds w] by (simp add: well_formed_def setup_fields)

lemma well_formed_newObject:
  "well_formed w \<Longrightarrow> well_formed (snd (newObject c w))"
  by (simp add: well_formed_def newObject_def)

lemma well_formed_selectMicDevice:
  "well_formed w \<Longrightarrow> well_formed (snd (selectMicDevice p i resp ds w))"
  using well_formed_setupNewMediaStream well_formed_fetchAudioTrack well_formed_newObject
  by (simp add: selectMicDevice_eq)

lemma well_formed_setMediaStreamToDefault:
  "well_formed w \<Longrightarrow> well_formed (snd (setMediaStreamToDefault p resp ds w))"
  using well_formed_setupNewMediaStream well_formed_fetchAudioTrack well_formed_newObject
  by (simp add: setMediaStreamToDefault_eq)

lemma well_formed_onDeviceChange:
  "well_formed w \<Longrightarrow> well_formed (onDeviceChange ds w)"
  using fetchMicDevices_labels [of ds w]
  by (simp add: well_formed_def onDeviceChange_def emit_def fetchMicDevices_def)

lemma well_formed_dispatch_ended:
  assumes "well_formed w" and "live (tracks w t)"
  shows "well_formed (dispatch_ended t resp w)"
proof -
  let ?w1 = "w\<lparr>tracks := (tracks w)(t := (tracks w t)\<lparr>live := False, ended_listeners := []\<rparr>)\<rparr>"
  from assms have L: "\<And>u. live (tracks w u) \<Longrightarrow> audioTrack w = Some u"
    and N: "\<And>u. length (ended_listeners (tracks w u)) \<le> 1"
    and M: "audioTrack w \<noteq> None \<Longrightarrow> mediaStream w = outboundStream w"
    and D: "\<forall>d \<in> set (micDevices w). mic_label d \<noteq> []"
    unfolding well_formed_def by blast+
  have held: "audioTrack w = Some t" using L assms(2) by blast
  have out: "mediaStream w = outboundStream w" using M held by simp
  have quiet: "\<not> live (tracks ?w1 u)" for u
  proof (cases "u = t")
    case True
    then show ?thesis by simp
  next
    case False
    with L [of u] held show ?thesis by auto
  qed
  have wf1: "well_formed ?w1"
    unfolding well_formed_def using quiet N M D by simp
  from N have "length (ended_listeners (tracks w t)) \<le> 1" .
  then consider "ended_listeners (tracks w t) = []"
    | l where "ended_listeners (tracks w t) = [l]"
    by (cases "ended_listeners (tracks w t)") auto
  then show ?thesis
  proof cases
    case 1
    with wf1 show ?thesis by (simp add: dispatch_ended_def)
  next
    case 2
    obtain c where l: "l = recreateAudioStream_closure c" by (cases l)
    have eq: "dispatch_ended t resp w = recreateAudioStream c resp ?w1"
      using 2 l by (simp add: dispatch_ended_def)
    show ?thesis
    proof (cases resp)
      case Rejected
      have "well_formed (recreateAudioStream c Rejected ?w1) = well_formed ?w1"
        unfolding recreate_rejected well_formed_def by simp
      with wf1 Rejected show ?thesis unfolding eq by simp
    next
      case (Granted lb)
      have "well_formed (recreateAudioStream c (Granted lb) ?w1)"
        unfolding well_formed_def recreate_granted using quiet N out D by simp
      with Granted show ?thesis unfolding eq by simp
    qed
  qed
qed

lemma reachable_well_formed: "reachable p w \<Longrightarrow> well_formed w"
proof (induction rule: reachable.induct)
  case (constructed st out)
  show ?case by (rule well_formed_AudioManager)
next
  case (fetched w r resp)
  then show ?case by (simp add: well_formed_fetchAudioTrack)
next
  case (fetched_default w resp)
  then show ?case by (simp add: well_formed_fetchAudioTrack)
next
  case (selected w i resp ds)
  then show ?case by (simp add: well_formed_selectMicDevice)
next
  case (defaulted w resp ds)
  then show ?case by (simp add: well_formed_setMediaStreamToDefault)
next
  case (devicechange w ds)
  then show ?case by (simp add: well_formed_onDeviceChange)
next
  case (track_ended w t resp)
  then show ?case by (simp add: well_formed_dispatch_ended)
next
  case (state_attached w s)
  then show ?case by (simp add: well_formed_def)
next
  case (store_edited w st)
  then show ?case by (simp add: well_formed_def)
next
  case (object_made w c)
  then show ?case by (simp add: well_formed_newObject)
next
  case (object_written w r c)
  then show ?case by (simp add: well_formed_def)
qed

lemma desktop_plain: "\<not> isFirefoxReality desktop" "\<not> isOculus desktop"
  by (simp_all add: isFirefoxReality_def isOculus_def desktop_def regex_test_def)

section \<open>The stream handle and the active track\<close>

lemma reachable_granted_once: "reachable desktop granted_once"
  unfolding granted_once_def fresh_manager_def by (intro reachable.fetched_default reachable.constructed)

lemma reachable_then_denied: "reachable desktop then_denied"
  unfolding then_denied_def by (intro reachable.fetched_default reachable_granted_once)

text \<open>
  Claim C1, as stated, fails. It says that in every reachable state \<open>mediaStream\<close> is
  non-empty if and only if \<open>audioTrack\<close> is, and that after a failed \<open>fetchAudioTrack\<close>
  both are empty. On a desktop browser, a manager whose first capture request is granted
  and whose second is rejected ends with no \<open>audioTrack\<close> and with the \<open>mediaStream\<close> of
  the first call: the \<open>catch\<close> branch resets \<open>audioTrack\<close> only, and nothing in the
  class ever resets \<open>mediaStream\<close>.
\<close>

theorem failed_fetch_keeps_mediaStream:
  "reachable desktop then_denied \<and>
   \<not> fst (fetchAudioTrack desktop None Rejected granted_once) \<and>
   audioTrack then_denied = None \<and>
   mediaStream then_denied = Some (OutboundStream 0) \<and>
   \<not> (mediaStream then_denied \<noteq> None \<longleftrightarrow> audioTrack then_denied \<noteq> None)"
  using reachable_then_denied
  by (simp add: then_denied_def granted_once_def fetch_result fetch_rejected fetch_granted
        fresh_manager_def AudioManager_def)

text \<open>
  Claim C1, amended: in every reachable state, a non-empty \<open>audioTrack\<close> comes with
  \<open>mediaStream\<close> being the outbound stream of the audio system (one direction of the
  coupling); and whenever \<open>fetchAudioTrack\<close> fails, \<open>audioTrack\<close> is empty afterward and
  \<open>mediaStream\<close> is what it was before the call.
\<close>

theorem audioTrack_implies_mediaStream:
  assumes "reachable p w"
  shows "(audioTrack w \<noteq> None \<longrightarrow> mediaStream w = outboundStream w) \<and>
         (\<not> fst (fetchAudioTrack p arg resp w) \<longrightarrow>
            audioTrack (snd (fetchAudioTrack p arg resp w)) = None \<and>
            mediaStream (snd (fetchAudioTrack p arg resp w)) = mediaStream w)"
proof -
  from assms have "well_formed w" by (rule reachable_well_formed)
  then have "audioTrack w \<noteq> None \<longrightarrow> mediaStream w = outboundStream w"
    by (simp add: well_formed_def)
  moreover have "\<not> fst (fetchAudioTrack p arg resp w) \<longrightarrow>
            audioTrack (snd (fetchAudioTrack p arg resp w)) = None \<and>
            mediaStream (snd (fetchAudioTrack p arg resp w)) = mediaStream w"
    by (simp add: fetch_result fetch_rejected)
  ultimately show ?thesis by simp
qed

theorem audioTrack_implies_mediaStream_witness:
  "reachable desktop granted_once \<and>
   audioTrack granted_once = Some 0 \<and>
   mediaStream granted_once = Some (OutboundStream 0) \<and>
   outboundStream granted_once = Some (OutboundStream 0) \<and>
   \<not> fst (fetchAudioTrack desktop None Rejected granted_once) \<and>
   audioTrack (snd (fetchAudioTrack desktop None Rejected granted_once)) = None \<and>
   mediaStream (snd (fetchAudioTrack desktop None Rejected granted_once)) = mediaStream granted_once"
  using audioTrack_implies_mediaStream [OF reachable_granted_once, of None Rejected]
    reachable_granted_once
  by (simp add: granted_once_def fetch_result fetch_granted fresh_manager_def AudioManager_def)

section \<open>The headset microphone advisory\<close>

text \<open>
  No method of the class assigns \<open>this.state\<close>: the constructor leaves it undefined and
  every method and event keeps it.
\<close>

lemma state_kept:
  "state (AudioManager st out) = None"
  "state (snd (fetchAudioTrack p arg resp w)) = state w"
  "state (snd (selectMicDevice p i resp ds w)) = state w"
  "state (snd (setMediaStreamToDefault p resp ds w)) = state w"
  "state (onDeviceChange ds w) = state w"
  by (cases resp; simp add: AudioManager_def fetch_rejected fetch_granted selectMicDevice_eq
        setMediaStreamToDefault_eq setup_fields newObject_def onDeviceChange_def emit_def
        fetchMicDevices_def)+

lemma no_state_rejects:
  assumes "state w = None"
  shows "shouldShowHmdMicWarning p w =
           (if isMobile p \<or> isMobileVR p then Inr False else Inl TypeError)"
  using assms by (simp add: shouldShowHmdMicWarning_def)

text \<open>
  Claim C2 holds of the code on handheld and mobile-VR platforms only. Everywhere else
  \<open>shouldShowHmdMicWarning\<close> reads \<open>this.state.enterInVR\<close>, and \<open>hasHmdMicrophone\<close> reads
  \<open>this.state.micDevices\<close>, on a manager that has no \<open>state\<close>; the device list of the
  manager is \<open>this.micDevices\<close>. On the claim's own example (a desktop browser, the
  microphones \<open>Vive Pro Mic\<close> and \<open>Generic Mic\<close> in the manager's list, one of them
  selected) the promise is rejected with a TypeError, where the claim says true for
  \<open>Generic Mic\<close> and false for \<open>Vive Pro Mic\<close>. The patterns themselves do not accept the
  label \<open>Vive Pro Mic\<close> either: \<open>\W\<close> needs a character before the word.
\<close>

theorem hmd_warning_rejects:
  "\<not> isMobile desktop \<and> \<not> isMobileVR desktop \<and>
   state (claimed_selection ''b2'' ''Generic Mic'') = None \<and>
   map mic_label (micDevices (claimed_selection ''b2'' ''Generic Mic'')) =
     [''Vive Pro Mic'', ''Generic Mic''] \<and>
   selectedMicLabel (claimed_selection ''b2'' ''Generic Mic'') = ''Generic Mic'' \<and>
   shouldShowHmdMicWarning desktop (claimed_selection ''b2'' ''Generic Mic'') = Inl TypeError \<and>
   selectedMicLabel (claimed_selection ''a1'' ''Vive Pro Mic'') = ''Vive Pro Mic'' \<and>
   shouldShowHmdMicWarning desktop (claimed_selection ''a1'' ''Vive Pro Mic'') = Inl TypeError \<and>
   hasHmdMicrophone (claimed_selection ''b2'' ''Generic Mic'') = Inl TypeError \<and>
   find (\<lambda>r. regex_test r ''Vive Pro Mic'') HMD_MIC_REGEXES = None"
proof -
  have st: "state (claimed_selection i l) = None" for i l
    by (simp add: claimed_selection_def state_kept fresh_manager_def)
  have lb: "selectedMicLabel (claimed_selection i l) = l" for i l
    by (simp add: claimed_selection_def selectMicDevice_eq selectedMicLabel_def
          micLabelForAudioTrack_def setup_fields fetch_granted newObject_def)
  have ds: "map mic_label (micDevices (claimed_selection i l)) = [''Vive Pro Mic'', ''Generic Mic'']"
    for i l
    by (simp add: claimed_selection_def selectMicDevice_eq setup_fields fetchMicDevices_def
          claimed_devices_def)
  have pl: "\<not> isMobile desktop" "\<not> isMobileVR desktop"
    by (simp_all add: desktop_def)
  have rj: "shouldShowHmdMicWarning desktop (claimed_selection i l) = Inl TypeError" for i l
    using no_state_rejects [OF st [of i l], of desktop] pl by simp
  have hh: "hasHmdMicrophone (claimed_selection i l) = Inl TypeError" for i l
    by (simp add: hasHmdMicrophone_def st)
  have rx: "find (\<lambda>r. regex_test r ''Vive Pro Mic'') HMD_MIC_REGEXES = None"
    by (simp add: HMD_MIC_REGEXES_def regex_test_def isWordChar_def canonicalize_def)
  from st lb ds pl rj hh rx show ?thesis by simp
qed

section \<open>What a fetch stops and requests\<close>

lemma requested_append: "requested (xs @ ys) = requested xs @ requested ys"
  by (induction xs rule: requested.induct) simp_all

lemma stopped_append: "stopped (xs @ ys) = stopped xs @ stopped ys"
  by (induction xs rule: stopped.induct) simp_all

lemma fetch_requested:
  "requested (trace (snd (fetchAudioTrack p arg resp w))) =
     requested (trace w) @ [with_toggles p (preferences (store w)) (arg_object arg w)]"
  by (simp add: fetch_trace requested_append split: option.splits response.splits)

lemma fetch_stopped:
  "stopped (trace (snd (fetchAudioTrack p arg resp w))) =
     stopped (trace w) @ (case audioTrack w of Some t \<Rightarrow> [t] | None \<Rightarrow> [])"
  by (simp add: fetch_trace stopped_append split: option.splits response.splits)

section \<open>The constraints on Firefox Reality\<close>

text \<open>
  Claim C3: on Firefox Reality, \<open>fetchAudioTrack\<close> sets each of the three toggles of the
  constraints to true only if its disable flag is \<open>false\<close> in the store (an absent flag
  gives a disabled toggle), requests the capture with these constraints, and writes each
  disable flag back as the negation of the effective toggle. Running it again changes
  nothing: the second call computes the same toggles, requests the same contents for the
  same object, and leaves the store as the first call left it.
\<close>

theorem firefox_reality_polarity:
  assumes "isFirefoxReality p"
  shows "let w1 = snd (fetchAudioTrack p (Some c) resp w);
             w2 = snd (fetchAudioTrack p (Some c') resp' w1);
             pr = preferences (store w)
         in echoCancellation (audio (heap w1 c)) = Some (disableEchoCancellation pr = Some False) \<and>
            noiseSuppression (audio (heap w1 c)) = Some (disableNoiseSuppression pr = Some False) \<and>
            autoGainControl (audio (heap w1 c)) = Some (disableAutoGainControl pr = Some False) \<and>
            requested (trace w1) = requested (trace w) @ [heap w1 c] \<and>
            preferences (store w1) =
              \<lparr>disableEchoCancellation = Some (disableEchoCancellation pr \<noteq> Some False),
               disableNoiseSuppression = Some (disableNoiseSuppression pr \<noteq> Some False),
               disableAutoGainControl = Some (disableAutoGainControl pr \<noteq> Some False)\<rparr> \<and>
            echoCancellation (audio (heap w2 c')) = echoCancellation (audio (heap w1 c)) \<and>
            noiseSuppression (audio (heap w2 c')) = noiseSuppression (audio (heap w1 c)) \<and>
            autoGainControl (audio (heap w2 c')) = autoGainControl (audio (heap w1 c)) \<and>
            requested (trace w2) = requested (trace w1) @ [heap w2 c'] \<and>
            heap w2 c = heap w1 c \<and>
            store w2 = store w1"
  using assms
  by (simp add: Let_def fetch_heap fetch_store fetch_requested arg_ref_def arg_object_def
        with_toggles_def corrected_def enabled_def)

theorem firefox_reality_polarity_witness:
  "isFirefoxReality firefox_reality \<and>
   disableEchoCancellation (preferences (store fresh_manager)) = None \<and>
   echoCancellation (audio (heap corrected_once 0)) = Some False \<and>
   disableEchoCancellation (preferences (store corrected_once)) = Some True \<and>
   heap corrected_twice 0 = heap corrected_once 0 \<and>
   store corrected_twice = store corrected_once \<and>
   requested (trace corrected_twice) = [heap corrected_once 0, heap corrected_once 0]"
  using firefox_reality_polarity [of firefox_reality 0 "Granted ''Headset Mic''"
      "snd (newObject emptyAudio fresh_manager)" 0 "Granted ''Headset Mic''"]
  by (simp add: corrected_once_def corrected_twice_def Let_def firefox_reality_def
        isFirefoxReality_def regex_test_def newObject_def fresh_manager_def AudioManager_def
        fresh_store_def)

section \<open>Recovery of an ended track on Oculus Browser\<close>

lemma dispatch_ended_armed:
  assumes "ended_listeners (tracks w t) = [recreateAudioStream_closure c]"
  shows "dispatch_ended t resp w =
           recreateAudioStream c resp
             (w\<lparr>tracks := (tracks w)(t := (tracks w t)\<lparr>live := False, ended_listeners := []\<rparr>)\<rparr>)"
  using assms by (simp add: dispatch_ended_def)

lemma dispatch_ended_unarmed:
  assumes "ended_listeners (tracks w t) = []"
  shows "dispatch_ended t resp w =
           w\<lparr>tracks := (tracks w)(t := (tracks w t)\<lparr>live := False, ended_listeners := []\<rparr>)\<rparr>"
  using assms by (simp add: dispatch_ended_def)

lemma fetch_granted_new_track:
  "tracks (snd (fetchAudioTrack p arg (Granted l) w)) (nextTrack w) =
     \<lparr>track_label = l, live = True,
      ended_listeners = (if isOculus p then [recreateAudioStream_closure (arg_ref arg w)] else [])\<rparr>"
  by (simp add: fetch_granted)

text \<open>
  Claim C4: a granted \<open>fetchAudioTrack\<close> registers the one-shot \<open>ended\<close> listener on the
  new track on Oculus Browser and on no other platform (elsewhere an ended track causes
  no request). When the browser ends that track and grants the re-request, exactly one
  request is made, for the same constraints object with the contents of the original
  request; the new stream is added to the outbound audio under \<open>microphone\<close>;
  \<open>local-media-stream-created\<close> is emitted; the listener is gone from the old track and
  registered on the new one, so that a second end from outside is recovered in the
  same way. Stopping the track, as the next \<open>fetchAudioTrack\<close> does, only records the
  stop and leaves the track ended: that call makes its own request and no other.
\<close>

theorem recovery_hook:
  "let w1 = snd (fetchAudioTrack p arg (Granted l1) w);
       c = arg_ref arg w;
       t1 = nextTrack w;
       w2 = dispatch_ended t1 (Granted l2) w1;
       t2 = Suc t1;
       w3 = dispatch_ended t2 (Granted l3) w2;
       t3 = Suc t2;
       recovery = (\<lambda>t. [GetUserMedia c (heap w1 c),
                          AddStreamToOutboundAudio ''microphone'' (MediaStream t),
                          SceneEmit ''local-media-stream-created''])
   in audioTrack w1 = Some t1 \<and> live (tracks w1 t1) \<and>
      requested (trace w1) = requested (trace w) @ [heap w1 c] \<and>
      ended_listeners (tracks w1 t1) = (if isOculus p then [recreateAudioStream_closure c] else []) \<and>
      (\<not> isOculus p \<longrightarrow> trace w2 = trace w1 \<and> audioTrack w2 = Some t1) \<and>
      (isOculus p \<longrightarrow>
         trace w2 = trace w1 @ recovery t2 \<and>
         audioTrack w2 = Some t2 \<and> live (tracks w2 t2) \<and> \<not> live (tracks w2 t1) \<and>
         ended_listeners (tracks w2 t1) = [] \<and>
         ended_listeners (tracks w2 t2) = [recreateAudioStream_closure c] \<and>
         trace w3 = trace w2 @ recovery t3 \<and>
         audioTrack w3 = Some t3 \<and> live (tracks w3 t3) \<and> \<not> live (tracks w3 t2) \<and>
         ended_listeners (tracks w3 t3) = [recreateAudioStream_closure c] \<and>
         trace (fetchAudioTrack_stop w1) = trace w1 @ [TrackStop t1] \<and>
         \<not> live (tracks (fetchAudioTrack_stop w1) t1) \<and>
         audioTrack (fetchAudioTrack_stop w1) = Some t1 \<and>
         length (requested (trace (snd (fetchAudioTrack p arg' resp' w1)))) =
           Suc (length (requested (trace w1))))"
proof -
  define w1 where "w1 = snd (fetchAudioTrack p arg (Granted l1) w)"
  define c where "c = arg_ref arg w"
  define t1 where "t1 = nextTrack w"
  define w2 where "w2 = dispatch_ended t1 (Granted l2) w1"
  define w3 where "w3 = dispatch_ended (Suc t1) (Granted l3) w2"
  have a1: "audioTrack w1 = Some t1" and n1: "nextTrack w1 = Suc t1"
    and tr1: "tracks w1 t1 = \<lparr>track_label = l1, live = True,
        ended_listeners = (if isOculus p then [recreateAudioStream_closure c] else [])\<rparr>"
    unfolding w1_def t1_def c_def by (simp_all add: fetch_granted)
  have rq1: "requested (trace w1) = requested (trace w) @ [heap w1 c]"
    unfolding w1_def c_def by (simp add: fetch_requested fetch_heap)
  have plain: "trace w2 = trace w1 \<and> audioTrack w2 = Some t1" if "\<not> isOculus p"
    using that tr1 a1 unfolding w2_def by (simp add: dispatch_ended_unarmed)
  have stp: "trace (fetchAudioTrack_stop w1) = trace w1 @ [TrackStop t1] \<and>
         \<not> live (tracks (fetchAudioTrack_stop w1) t1) \<and>
         audioTrack (fetchAudioTrack_stop w1) = Some t1"
    using a1 by (simp add: phase_simps)
  have nxt: "length (requested (trace (snd (fetchAudioTrack p arg' resp' w1)))) =
           Suc (length (requested (trace w1)))"
    by (simp add: fetch_requested)
  have armed: "trace w2 = trace w1 @ [GetUserMedia c (heap w1 c),
                          AddStreamToOutboundAudio ''microphone'' (MediaStream (Suc t1)),
                          SceneEmit ''local-media-stream-created''] \<and>
         audioTrack w2 = Some (Suc t1) \<and> live (tracks w2 (Suc t1)) \<and> \<not> live (tracks w2 t1) \<and>
         ended_listeners (tracks w2 t1) = [] \<and>
         ended_listeners (tracks w2 (Suc t1)) = [recreateAudioStream_closure c] \<and>
         heap w2 = heap w1 \<and> nextTrack w2 = Suc (Suc t1)" if "isOculus p"
  proof -
    from that tr1 have "ended_listeners (tracks w1 t1) = [recreateAudioStream_closure c]" by simp
    then show ?thesis
      unfolding w2_def using n1 by (simp add: dispatch_ended_armed recreate_granted)
  qed
  have again: "trace w3 = trace w2 @ [GetUserMedia c (heap w1 c),
                          AddStreamToOutboundAudio ''microphone'' (MediaStream (Suc (Suc t1))),
                          SceneEmit ''local-media-stream-created''] \<and>
         audioTrack w3 = Some (Suc (Suc t1)) \<and> live (tracks w3 (Suc (Suc t1))) \<and>
         \<not> live (tracks w3 (Suc t1)) \<and>
         ended_listeners (tracks w3 (Suc (Suc t1))) = [recreateAudioStream_closure c]" if "isOculus p"
  proof -
    from armed [OF that] have l2: "ended_listeners (tracks w2 (Suc t1)) = [recreateAudioStream_closure c]"
      and h2: "heap w2 = heap w1" and n2: "nextTrack w2 = Suc (Suc t1)" by simp_all
    show ?thesis
      unfolding w3_def using h2 n2 by (simp add: dispatch_ended_armed [OF l2] recreate_granted)
  qed
  show ?thesis
    unfolding Let_def w1_def [symmetric] c_def [symmetric] t1_def [symmetric]
      w2_def [symmetric] w3_def [symmetric]
    using a1 tr1 rq1 plain armed again stp nxt by simp
qed

lemma isOculus_oculus_browser: "isOculus oculus_browser"
  by (simp add: isOculus_def oculus_browser_def regex_test_def)

lemma reachable_recovered_twice: "reachable oculus_browser recovered_twice"
proof -
  have r1: "reachable oculus_browser armed_once"
    unfolding armed_once_def fresh_manager_def by (intro reachable.fetched_default reachable.constructed)
  have l1: "live (tracks armed_once 0)"
    by (simp add: armed_once_def fetch_granted fresh_manager_def AudioManager_def)
  have r2: "reachable oculus_browser recovered_once"
    unfolding recovered_once_def using r1 l1 by (rule reachable.track_ended)
  have "ended_listeners (tracks armed_once 0) = [recreateAudioStream_closure 0]"
    using isOculus_oculus_browser
    by (simp add: armed_once_def fetch_granted fresh_manager_def AudioManager_def arg_ref_def)
  then have l2: "live (tracks recovered_once (Suc 0))"
    unfolding recovered_once_def
    by (simp add: dispatch_ended_armed recreate_granted armed_once_def fetch_granted
          fresh_manager_def AudioManager_def)
  show ?thesis
    unfolding recovered_twice_def using r2 l2 by (rule reachable.track_ended)
qed

theorem recovery_hook_witness:
  "isOculus oculus_browser \<and>
   reachable oculus_browser recovered_twice \<and>
   ended_listeners (tracks armed_once 0) = [recreateAudioStream_closure 0] \<and>
   trace recovered_once =
     trace armed_once @ [GetUserMedia 0 (heap armed_once 0),
                         AddStreamToOutboundAudio ''microphone'' (MediaStream 1),
                         SceneEmit ''local-media-stream-created''] \<and>
   ended_listeners (tracks recovered_once 1) = [recreateAudioStream_closure 0] \<and>
   trace recovered_twice =
     trace recovered_once @ [GetUserMedia 0 (heap armed_once 0),
                             AddStreamToOutboundAudio ''microphone'' (MediaStream 2),
                             SceneEmit ''local-media-stream-created''] \<and>
   audioTrack recovered_twice = Some 2 \<and>
   requested (trace recovered_twice) = [heap armed_once 0, heap armed_once 0, heap armed_once 0]"
proof -
  have z: "nextTrack fresh_manager = 0" "arg_ref None fresh_manager = 0"
    "trace fresh_manager = []"
    by (simp_all add: fresh_manager_def AudioManager_def arg_ref_def)
  note h = recovery_hook [of oculus_browser None "''Headset Mic''" fresh_manager
      "''Headset Mic''" "''Headset Mic''", unfolded Let_def z, folded armed_once_def,
      folded recovered_once_def, folded recovered_twice_def]
  from h isOculus_oculus_browser reachable_recovered_twice show ?thesis
    by (simp add: requested_append)
qed

section \<open>Housekeeping, field by field\<close>

lemma fetchMicDevices_fields:
  "audioTrack (fetchMicDevices ds w) = audioTrack w"
  "tracks (fetchMicDevices ds w) = tracks w"
  "store (fetchMicDevices ds w) = store w"
  "trace (fetchMicDevices ds w) = trace w @ [EnumerateDevices]"
  by (simp_all add: fetchMicDevices_def)

lemma micLabel_fetchMicDevices:
  "micLabelForAudioTrack (fetchMicDevices ds w) a = micLabelForAudioTrack w a"
  by (simp add: micLabelForAudioTrack_def fetchMicDevices_fields split: option.splits)

lemma setup_trace:
  "trace (setupNewMediaStream ds w) =
     trace w @ [EnumerateDevices]
     @ (case audioTrack w of
          None \<Rightarrow> []
        | Some t \<Rightarrow> (case persisted ds w of Some d \<Rightarrow> [StoreUpdate (SettingsPatch d)] | None \<Rightarrow> [])
                    @ [SceneEmit ''local-media-stream-created''])"
proof (cases "audioTrack w")
  case None
  then show ?thesis
    by (simp add: setupNewMediaStream_def fetchMicDevices_fields Let_def)
next
  case (Some t)
  then show ?thesis
    by (cases "micDeviceIdForMicLabel (fetchMicDevices ds w) (micLabelForAudioTrack w (Some t))")
       (simp_all add: setupNewMediaStream_def fetchMicDevices_fields micLabel_fetchMicDevices
          persisted_def selectedMicLabel_def update_def emit_def Let_def)
qed

lemma setup_store:
  "store (setupNewMediaStream ds w) =
     (case audioTrack w of
        None \<Rightarrow> store w
      | Some t \<Rightarrow> (case persisted ds w of Some d \<Rightarrow> merge_patch (SettingsPatch d) (store w)
                                        | None \<Rightarrow> store w))"
proof (cases "audioTrack w")
  case None
  then show ?thesis
    by (simp add: setupNewMediaStream_def fetchMicDevices_fields Let_def)
next
  case (Some t)
  then show ?thesis
    by (cases "micDeviceIdForMicLabel (fetchMicDevices ds w) (micLabelForAudioTrack w (Some t))")
       (simp_all add: setupNewMediaStream_def fetchMicDevices_fields micLabel_fetchMicDevices
          persisted_def selectedMicLabel_def update_def emit_def Let_def)
qed

lemma setup_stopped: "stopped (trace (setupNewMediaStream ds w)) = stopped (trace w)"
  by (simp add: setup_trace stopped_append split: option.splits)

lemma setup_requested: "requested (trace (setupNewMediaStream ds w)) = requested (trace w)"
  by (simp add: setup_trace requested_append split: option.splits)

lemma newObject_fields:
  "audioTrack (snd (newObject c w)) = audioTrack w"
  "trace (snd (newObject c w)) = trace w"
  "store (snd (newObject c w)) = store w"
  "tracks (snd (newObject c w)) = tracks w"
  "nextTrack (snd (newObject c w)) = nextTrack w"
  "micDevices (snd (newObject c w)) = micDevices w"
  "heap (snd (newObject c w)) = (heap w)(nextRef w := c)"
  "fst (newObject c w) = nextRef w"
  by (simp_all add: newObject_def)

lemma select_stopped:
  "stopped (trace (snd (selectMicDevice p i resp ds w))) =
     stopped (trace w) @ (case audioTrack w of Some t \<Rightarrow> [t] | None \<Rightarrow> [])"
  by (simp add: selectMicDevice_eq setup_stopped fetch_stopped newObject_fields)

section \<open>One live capture\<close>

text \<open>
  The halves, run one right after the other, are the methods.
\<close>

lemma getUserMedia_halves:
  "getUserMedia c resp w = getUserMedia_settle resp (getUserMedia_call c w)"
  by (simp add: getUserMedia_def getUserMedia_settle_def getUserMedia_call_def Let_def
        split: response.splits)

lemma fetchAudioTrack_halves:
  "fetchAudioTrack p arg resp w =
     fetchAudioTrack_resume p (fst (fetchAudioTrack_suspend p arg w)) resp
       (snd (fetchAudioTrack_suspend p arg w))"
  by (simp add: fetchAudioTrack_def fetchAudioTrack_suspend_def fetchAudioTrack_resume_def
        getUserMedia_halves Let_def split_beta)

lemma selectMicDevice_halves:
  "selectMicDevice p i resp ds w =
     selectMicDevice_resume p (fst (selectMicDevice_suspend p i w)) resp ds
       (snd (selectMicDevice_suspend p i w))"
  by (simp add: selectMicDevice_def selectMicDevice_suspend_def selectMicDevice_resume_def
        fetchAudioTrack_halves Let_def split_beta)

lemmas halves_unfold = selectMicDevice_suspend_def selectMicDevice_resume_def
  fetchAudioTrack_suspend_def fetchAudioTrack_resume_def getUserMedia_call_def
  getUserMedia_settle_def fetchAudioTrack_success_def addStreamToOutboundAudio_def newObject_def
  Let_def split_beta

text \<open>
  Claim C5, as stated, fails: it says that at no point the manager holds two live capture
  tracks and that each \<open>selectMicDevice\<close> call stops one. Nothing in the class keeps a
  second call from starting while the first waits at \<open>await getUserMedia\<close>. On a
  manager that holds track 0, when two calls of \<open>selectMicDevice\<close> overlap in that way,
  both stop track 0 and both requests are granted: tracks 1 and 2 are live together, the
  manager holds track 2, and track 1 is never stopped.
\<close>

theorem overlapping_selects_hold_two:
  "audioTrack selected_once = Some 0 \<and>
   stopped (trace selected_once) = [] \<and>
   audioTrack overlapping_selects = Some 2 \<and>
   live (tracks overlapping_selects 1) \<and>
   live (tracks overlapping_selects 2) \<and>
   stopped (trace overlapping_selects) = [0, 0] \<and>
   length (requested (trace overlapping_selects)) = 3"
proof -
  have a: "audioTrack selected_once = Some 0" "nextTrack selected_once = Suc 0"
    by (simp_all add: selected_once_def selectMicDevice_eq setup_fields
          fetch_granted newObject_fields fresh_manager_def AudioManager_def)
  have s: "stopped (trace selected_once) = []"
    by (simp add: selected_once_def select_stopped fresh_manager_def AudioManager_def)
  have r: "length (requested (trace selected_once)) = 1"
    by (simp add: selected_once_def selectMicDevice_eq setup_requested fetch_requested
          newObject_fields fresh_manager_def AudioManager_def)
  have o: "audioTrack overlapping_selects = Some 2"
    "live (tracks overlapping_selects 1)" "live (tracks overlapping_selects 2)"
    using a desktop_plain
    by (simp_all add: overlapping_selects_def halves_unfold setup_fields phase_simps)
  have t: "stopped (trace overlapping_selects) = [0, 0]"
    "length (requested (trace overlapping_selects)) = 3"
    using a s r desktop_plain
    by (simp_all add: overlapping_selects_def halves_unfold setup_stopped setup_requested
          phase_simps stopped_append requested_append)
  from a s o t show ?thesis by simp
qed

text \<open>
  Claim C5, amended: as long as the operations do not overlap (each method call, and each
  recovery of an ended track, is settled before the next one starts), a live capture
  track is always the active track, so the manager never holds two. \<open>fetchAudioTrack\<close>
  stops the active track, if there is one, before anything else: after that step no track
  is live, and the one capture request of the call comes later in the trace, with no
  other stop. A call of \<open>selectMicDevice\<close> therefore stops exactly the track that was
  active when it was called (and none when none was), and its result again holds at most
  the one live track.
\<close>

theorem one_live_capture:
  assumes "reachable p w"
  shows "(\<forall>t. live (tracks w t) \<longrightarrow> audioTrack w = Some t) \<and>
         (\<forall>t. \<not> live (tracks (fetchAudioTrack_stop w) t)) \<and>
         (\<exists>rest. trace (snd (fetchAudioTrack p arg resp w)) =
                    trace w @ (case audioTrack w of Some t \<Rightarrow> [TrackStop t] | None \<Rightarrow> []) @ rest \<and>
                  stopped rest = [] \<and> length (requested rest) = 1) \<and>
         stopped (trace (snd (selectMicDevice p i resp' ds w))) =
           stopped (trace w) @ (case audioTrack w of Some t \<Rightarrow> [t] | None \<Rightarrow> []) \<and>
         (\<forall>t. live (tracks (snd (selectMicDevice p i resp' ds w)) t) \<longrightarrow>
              audioTrack (snd (selectMicDevice p i resp' ds w)) = Some t)"
proof -
  from assms have wf: "well_formed w" by (rule reachable_well_formed)
  then have held: "\<forall>t. live (tracks w t) \<longrightarrow> audioTrack w = Some t"
    by (simp add: well_formed_def)
  have quiet: "\<forall>t. \<not> live (tracks (fetchAudioTrack_stop w) t)"
  proof
    fix t
    show "\<not> live (tracks (fetchAudioTrack_stop w) t)"
    proof (cases "audioTrack w")
      case None
      with held show ?thesis by (auto simp add: phase_simps)
    next
      case (Some u)
      with held show ?thesis by (auto simp add: phase_simps)
    qed
  qed
  let ?rest = "(if isFirefoxReality p then [StoreUpdate (corrected p (preferences (store w)))] else [])
     @ [GetUserMedia (arg_ref arg w) (with_toggles p (preferences (store w)) (arg_object arg w))]
     @ (case resp of Granted l \<Rightarrow> [AddStreamToOutboundAudio ''microphone'' (MediaStream (nextTrack w))]
                   | Rejected \<Rightarrow> [])"
  have "trace (snd (fetchAudioTrack p arg resp w)) =
          trace w @ (case audioTrack w of Some t \<Rightarrow> [TrackStop t] | None \<Rightarrow> []) @ ?rest \<and>
        stopped ?rest = [] \<and> length (requested ?rest) = 1"
    by (simp add: fetch_trace stopped_append requested_append split: response.splits)
  then have order: "\<exists>rest. trace (snd (fetchAudioTrack p arg resp w)) =
                    trace w @ (case audioTrack w of Some t \<Rightarrow> [TrackStop t] | None \<Rightarrow> []) @ rest \<and>
                  stopped rest = [] \<and> length (requested rest) = 1"
    by blast
  have "reachable p (snd (selectMicDevice p i resp' ds w))"
    using assms by (rule reachable.selected)
  then have "well_formed (snd (selectMicDevice p i resp' ds w))" by (rule reachable_well_formed)
  then have after: "\<forall>t. live (tracks (snd (selectMicDevice p i resp' ds w)) t) \<longrightarrow>
              audioTrack (snd (selectMicDevice p i resp' ds w)) = Some t"
    by (simp add: well_formed_def)
  from held quiet order select_stopped [of p i resp' ds w] after show ?thesis by blast
qed

lemma reachable_selected_once: "reachable desktop selected_once"
  unfolding selected_once_def fresh_manager_def by (intro reachable.selected reachable.constructed)

theorem one_live_capture_witness:
  "reachable desktop selected_once \<and>
   audioTrack selected_once = Some 0 \<and> live (tracks selected_once 0) \<and>
   stopped (trace selected_once) = [] \<and>
   stopped (trace selected_twice) = [0] \<and>
   audioTrack selected_twice = Some 1 \<and>
   live (tracks selected_twice 1) \<and> \<not> live (tracks selected_twice 0)"
proof -
  have a: "audioTrack selected_once = Some 0" "live (tracks selected_once 0)"
    "nextTrack selected_once = Suc 0"
    by (simp_all add: selected_once_def selectMicDevice_eq setup_fields
          fetch_granted newObject_fields fresh_manager_def AudioManager_def)
  have s: "stopped (trace selected_once) = []"
    by (simp add: selected_once_def select_stopped fresh_manager_def AudioManager_def)
  have b: "audioTrack selected_twice = Some 1" "live (tracks selected_twice 1)"
    "\<not> live (tracks selected_twice 0)"
    unfolding selected_twice_def using a
    by (simp_all add: selectMicDevice_eq setup_fields fetch_granted newObject_fields)
  note h = one_live_capture [OF reachable_selected_once, of None Rejected "''b2''"
      "Granted ''Generic Mic''" vive_devices, folded selected_twice_def]
  from h [THEN conjunct2, THEN conjunct2, THEN conjunct2, THEN conjunct1] a s
  have "stopped (trace selected_twice) = [0]" by simp
  with reachable_selected_once a b s show ?thesis by simp
qed

section \<open>Selecting a microphone and the default stream\<close>

lemma with_toggles_deviceId: "deviceId (audio (with_toggles p pr v)) = deviceId (audio v)"
  by (simp add: with_toggles_def)

lemma setup_runs: "\<exists>rest. trace (setupNewMediaStream ds w) = trace w @ EnumerateDevices # rest"
  by (simp add: setup_trace)

text \<open>
  Claim C7: \<open>selectMicDevice(deviceId)\<close> makes one capture request, whose device clause is
  \<open>{exact: [deviceId]}\<close>; it then runs \<open>setupNewMediaStream\<close> on the outcome of the
  fetch, whether the request was granted or rejected (the device list is enumerated and
  the cache refreshed in both cases); and it returns the flag of the fetch, which is
  true exactly when the request was granted.
\<close>

theorem selectMicDevice_exact:
  "let f = fetchAudioTrack p (Some (nextRef w)) resp (snd (newObject (exact_constraints i) w));
       r = selectMicDevice p i resp ds w;
       sent = with_toggles p (preferences (store w)) (exact_constraints i)
   in requested (trace (snd r)) = requested (trace w) @ [sent] \<and>
      deviceId (audio sent) = Some (exact [i]) \<and>
      snd r = setupNewMediaStream ds (snd f) \<and>
      (\<exists>rest. trace (snd r) = trace (snd f) @ EnumerateDevices # rest) \<and>
      micDevices (snd r) = micDevices (fetchMicDevices ds w) \<and>
      fst r = fst f \<and>
      fst r = (resp \<noteq> Rejected)"
proof -
  let ?f = "fetchAudioTrack p (Some (nextRef w)) resp (snd (newObject (exact_constraints i) w))"
  have r: "selectMicDevice p i resp ds w = (fst ?f, setupNewMediaStream ds (snd ?f))"
    by (rule selectMicDevice_eq)
  have q: "requested (trace (setupNewMediaStream ds (snd ?f))) =
        requested (trace w) @ [with_toggles p (preferences (store w)) (exact_constraints i)]"
    by (simp add: setup_requested fetch_requested newObject_fields arg_object_def)
  have d: "deviceId (audio (with_toggles p (preferences (store w)) (exact_constraints i))) = Some (exact [i])"
    by (simp add: with_toggles_def exact_constraints_def)
  have m: "micDevices (setupNewMediaStream ds (snd ?f)) = micDevices (fetchMicDevices ds w)"
    by (simp add: setup_fields fetchMicDevices_def)
  show ?thesis
    unfolding Let_def r using q d m setup_runs [of ds "snd ?f"] by (simp add: fetch_result)
qed

text \<open>
  Claim C6: \<open>setMediaStreamToDefault\<close> makes one capture request. If the settings hold a
  last used microphone id (a non-empty one: the test is JavaScript truthiness), the object
  passed to the fetch is \<open>{audio: {deviceId: {ideal: id}}}\<close> and the request carries that
  clause; if they hold none, the object is \<open>{audio: {}}\<close> and the request has no device
  clause. In both cases \<open>setupNewMediaStream\<close> runs on the outcome of the fetch, and the
  result is \<open>{hasAudio}\<close> with the flag of the fetch.
\<close>

theorem setMediaStreamToDefault_ideal:
  "let f = fetchAudioTrack p (Some (nextRef w)) resp (snd (newObject (default_constraints w) w));
       r = setMediaStreamToDefault p resp ds w;
       sent = with_toggles p (preferences (store w)) (default_constraints w)
   in requested (trace (snd r)) = requested (trace w) @ [sent] \<and>
      (\<forall>i. lastUsedMicDeviceId (settings (store w)) = Some i \<and> i \<noteq> [] \<longrightarrow>
           default_constraints w =
             \<lparr>audio = \<lparr>deviceId = Some (ideal i), echoCancellation = None,
                       noiseSuppression = None, autoGainControl = None\<rparr>\<rparr> \<and>
           deviceId (audio sent) = Some (ideal i)) \<and>
      (lastUsedMicDeviceId (settings (store w)) = None \<or>
       lastUsedMicDeviceId (settings (store w)) = Some [] \<longrightarrow>
           default_constraints w = emptyAudio \<and> deviceId (audio sent) = None) \<and>
      snd r = setupNewMediaStream ds (snd f) \<and>
      (\<exists>rest. trace (snd r) = trace (snd f) @ EnumerateDevices # rest) \<and>
      micDevices (snd r) = micDevices (fetchMicDevices ds w) \<and>
      hasAudio (fst r) = fst f \<and>
      hasAudio (fst r) = (resp \<noteq> Rejected)"
proof -
  let ?f = "fetchAudioTrack p (Some (nextRef w)) resp (snd (newObject (default_constraints w) w))"
  have r: "setMediaStreamToDefault p resp ds w = (\<lparr>hasAudio = fst ?f\<rparr>, setupNewMediaStream ds (snd ?f))"
    by (rule setMediaStreamToDefault_eq)
  have q: "requested (trace (setupNewMediaStream ds (snd ?f))) =
        requested (trace w) @ [with_toggles p (preferences (store w)) (default_constraints w)]"
    by (simp add: setup_requested fetch_requested newObject_fields arg_object_def)
  have d1: "\<forall>i. lastUsedMicDeviceId (settings (store w)) = Some i \<and> i \<noteq> [] \<longrightarrow>
           default_constraints w =
             \<lparr>audio = \<lparr>deviceId = Some (ideal i), echoCancellation = None,
                       noiseSuppression = None, autoGainControl = None\<rparr>\<rparr> \<and>
           deviceId (audio (with_toggles p (preferences (store w)) (default_constraints w))) = Some (ideal i)"
    by (simp add: default_constraints_def get_lastUsedMicDeviceId_def with_toggles_def)
  have d2: "lastUsedMicDeviceId (settings (store w)) = None \<or>
       lastUsedMicDeviceId (settings (store w)) = Some [] \<longrightarrow>
           default_constraints w = emptyAudio \<and>
           deviceId (audio (with_toggles p (preferences (store w)) (default_constraints w))) = None"
    by (auto simp add: default_constraints_def get_lastUsedMicDeviceId_def with_toggles_def emptyAudio_def)
  have m: "micDevices (setupNewMediaStream ds (snd ?f)) = micDevices (fetchMicDevices ds w)"
    by (simp add: setup_fields fetchMicDevices_def)
  show ?thesis
    unfolding Let_def r using q d1 d2 m setup_runs [of ds "snd ?f"]
    by (simp add: fetch_result with_toggles_deviceId emptyAudio_def)
qed

theorem selectMicDevice_exact_witness:
  "requested (trace (snd (selectMicDevice desktop ''b2'' Rejected vive_devices fresh_manager))) =
     [\<lparr>audio = \<lparr>deviceId = Some (exact [''b2'']), echoCancellation = Some True,
                noiseSuppression = Some True, autoGainControl = Some True\<rparr>\<rparr>] \<and>
   \<not> fst (selectMicDevice desktop ''b2'' Rejected vive_devices fresh_manager) \<and>
   map mic_value (micDevices (snd (selectMicDevice desktop ''b2'' Rejected vive_devices fresh_manager))) =
     [''a1'', ''b2''] \<and>
   fst (selectMicDevice desktop ''b2'' (Granted ''Generic Mic'') vive_devices fresh_manager)"
proof -
  have s: "store fresh_manager = fresh_store" "trace fresh_manager = []"
    by (simp_all add: fresh_manager_def AudioManager_def)
  have t: "with_toggles desktop (preferences fresh_store) (exact_constraints ''b2'') =
             \<lparr>audio = \<lparr>deviceId = Some (exact [''b2'']), echoCancellation = Some True,
                noiseSuppression = Some True, autoGainControl = Some True\<rparr>\<rparr>"
    using desktop_plain by (simp add: with_toggles_def enabled_def fresh_store_def exact_constraints_def)
  note a = selectMicDevice_exact [of desktop fresh_manager Rejected "''b2''" vive_devices,
      unfolded Let_def]
  from a [THEN conjunct1]
  have q: "requested (trace (snd (selectMicDevice desktop ''b2'' Rejected vive_devices fresh_manager))) =
     [\<lparr>audio = \<lparr>deviceId = Some (exact [''b2'']), echoCancellation = Some True,
                noiseSuppression = Some True, autoGainControl = Some True\<rparr>\<rparr>]"
    by (simp add: s t)
  have h: "\<not> fst (selectMicDevice desktop ''b2'' Rejected vive_devices fresh_manager)"
    "fst (selectMicDevice desktop ''b2'' (Granted ''Generic Mic'') vive_devices fresh_manager)"
    by (simp_all add: selectMicDevice_eq fetch_result)
  have d: "map mic_value (micDevices (snd (selectMicDevice desktop ''b2'' Rejected vive_devices fresh_manager))) =
     [''a1'', ''b2'']"
    by (simp add: selectMicDevice_eq setup_fields fetchMicDevices_def vive_devices_def)
  from q h d show ?thesis by simp
qed

theorem setMediaStreamToDefault_ideal_witness:
  "lastUsedMicDeviceId (settings (store stored_mic_42)) = Some ''mic-42'' \<and>
   requested (trace (snd (setMediaStreamToDefault desktop Rejected vive_devices stored_mic_42))) =
     [\<lparr>audio = \<lparr>deviceId = Some (ideal ''mic-42''), echoCancellation = Some True,
                noiseSuppression = Some True, autoGainControl = Some True\<rparr>\<rparr>] \<and>
   \<not> hasAudio (fst (setMediaStreamToDefault desktop Rejected vive_devices stored_mic_42)) \<and>
   map mic_value (micDevices (snd (setMediaStreamToDefault desktop Rejected vive_devices stored_mic_42))) =
     [''a1'', ''b2''] \<and>
   lastUsedMicDeviceId (settings (store fresh_manager)) = None \<and>
   requested (trace (snd (setMediaStreamToDefault desktop (Granted ''Generic Mic'') vive_devices fresh_manager))) =
     [\<lparr>audio = \<lparr>deviceId = None, echoCancellation = Some True,
                noiseSuppression = Some True, autoGainControl = Some True\<rparr>\<rparr>] \<and>
   hasAudio (fst (setMediaStreamToDefault desktop (Granted ''Generic Mic'') vive_devices fresh_manager))"
proof -
  have s: "lastUsedMicDeviceId (settings (store stored_mic_42)) = Some ''mic-42''"
    "preferences (store stored_mic_42) = preferences fresh_store"
    "trace stored_mic_42 = []"
    "lastUsedMicDeviceId (settings (store fresh_manager)) = None"
    "store fresh_manager = fresh_store"
    "trace fresh_manager = []"
    by (simp_all add: stored_mic_42_def fresh_manager_def AudioManager_def fresh_store_def)
  have t: "with_toggles desktop (preferences fresh_store) v =
             v\<lparr>audio := (audio v)\<lparr>echoCancellation := Some True, noiseSuppression := Some True,
                                   autoGainControl := Some True\<rparr>\<rparr>" for v
    using desktop_plain by (simp add: with_toggles_def enabled_def fresh_store_def)
  have m: "map mic_value (micDevices (fetchMicDevices vive_devices w)) = [''a1'', ''b2'']" for w
    by (simp add: fetchMicDevices_def vive_devices_def)
  note a = setMediaStreamToDefault_ideal [of desktop stored_mic_42 Rejected vive_devices,
      unfolded Let_def]
  note b = setMediaStreamToDefault_ideal [of desktop fresh_manager "Granted ''Generic Mic''"
      vive_devices, unfolded Let_def]
  have dc: "default_constraints stored_mic_42 =
              \<lparr>audio = \<lparr>deviceId = Some (ideal ''mic-42''), echoCancellation = None,
                         noiseSuppression = None, autoGainControl = None\<rparr>\<rparr>"
    "default_constraints fresh_manager = emptyAudio"
    by (simp_all add: default_constraints_def get_lastUsedMicDeviceId_def stored_mic_42_def
          fresh_manager_def AudioManager_def fresh_store_def)
  from a [THEN conjunct1] b [THEN conjunct1]
  have q: "requested (trace (snd (setMediaStreamToDefault desktop Rejected vive_devices stored_mic_42))) =
     [\<lparr>audio = \<lparr>deviceId = Some (ideal ''mic-42''), echoCancellation = Some True,
                noiseSuppression = Some True, autoGainControl = Some True\<rparr>\<rparr>]"
    "requested (trace (snd (setMediaStreamToDefault desktop (Granted ''Generic Mic'') vive_devices fresh_manager))) =
     [\<lparr>audio = \<lparr>deviceId = None, echoCancellation = Some True,
                noiseSuppression = Some True, autoGainControl = Some True\<rparr>\<rparr>]"
    by (simp_all add: s t dc emptyAudio_def)
  have h: "\<not> hasAudio (fst (setMediaStreamToDefault desktop Rejected vive_devices stored_mic_42))"
    "hasAudio (fst (setMediaStreamToDefault desktop (Granted ''Generic Mic'') vive_devices fresh_manager))"
    by (simp_all add: setMediaStreamToDefault_eq fetch_result)
  have d: "map mic_value (micDevices (snd (setMediaStreamToDefault desktop Rejected vive_devices stored_mic_42))) =
     [''a1'', ''b2'']"
    by (simp add: setMediaStreamToDefault_eq setup_fields m)
  from q h d s show ?thesis by simp
qed

section \<open>The selected device id\<close>

lemma first_match:
  "(case map f (filter P xs) of [] \<Rightarrow> None | v # vs \<Rightarrow> Some v) = map_option f (find P xs)"
  by (induction xs) simp_all

lemma micDeviceIdForMicLabel_find:
  "micDeviceIdForMicLabel w l = map_option mic_value (find (\<lambda>d. mic_label d = l) (micDevices w))"
  unfolding micDeviceIdForMicLabel_def by (rule first_match)

lemma selectedMicLabel_granted:
  "selectedMicLabel (snd (fetchAudioTrack p arg (Granted l) w)) = l"
  by (simp add: selectedMicLabel_def micLabelForAudioTrack_def fetch_granted)

text \<open>
  Claim C8: \<open>selectedMicDeviceId\<close> is a function of the active track and the cached
  device list, computed at each read: the id of the first cached device whose label is
  the label of the active track. It is undefined, with no exception, when no cached
  label matches, and in particular when no track is active (the label is then empty, and
  no cached device has an empty label). After a granted fetch the label is the one of
  the new track, so the id is that of the first cached device with that label; after
  \<open>selectMicDevice\<close> the lookup goes through the refreshed list.
\<close>

theorem selectedMicDeviceId_derived:
  assumes "reachable p w"
  shows "selectedMicDeviceId w =
           map_option mic_value (find (\<lambda>d. mic_label d = selectedMicLabel w) (micDevices w)) \<and>
         (audioTrack w = None \<longrightarrow> selectedMicLabel w = [] \<and> selectedMicDeviceId w = None) \<and>
         ((\<forall>d \<in> set (micDevices w). mic_label d \<noteq> selectedMicLabel w) \<longrightarrow>
            selectedMicDeviceId w = None) \<and>
         selectedMicLabel (snd (fetchAudioTrack p arg (Granted l) w)) = l \<and>
         selectedMicDeviceId (snd (fetchAudioTrack p arg (Granted l) w)) =
           map_option mic_value (find (\<lambda>d. mic_label d = l) (micDevices w)) \<and>
         selectedMicDeviceId (snd (selectMicDevice p i (Granted l) ds w)) =
           map_option mic_value (find (\<lambda>d. mic_label d = l) (micDevices (fetchMicDevices ds w)))"
proof -
  from assms have "well_formed w" by (rule reachable_well_formed)
  then have labels: "\<forall>d \<in> set (micDevices w). mic_label d \<noteq> []"
    by (simp add: well_formed_def)
  have eq: "selectedMicDeviceId w =
           map_option mic_value (find (\<lambda>d. mic_label d = selectedMicLabel w) (micDevices w))"
    by (simp add: selectedMicDeviceId_def micDeviceIdForMicLabel_find)
  have none: "selectedMicDeviceId w = None"
    if "\<forall>d \<in> set (micDevices w). mic_label d \<noteq> selectedMicLabel w"
    using that unfolding eq by (simp add: find_None_iff)
  have idle: "selectedMicLabel w = [] \<and> selectedMicDeviceId w = None" if "audioTrack w = None"
  proof -
    from that have e: "selectedMicLabel w = []"
      by (simp add: selectedMicLabel_def micLabelForAudioTrack_def)
    with labels none show ?thesis by simp
  qed
  have fetched: "selectedMicDeviceId (snd (fetchAudioTrack p arg (Granted l) w)) =
           map_option mic_value (find (\<lambda>d. mic_label d = l) (micDevices w))"
    by (simp add: selectedMicDeviceId_def micDeviceIdForMicLabel_find selectedMicLabel_granted
          fetch_granted)
  have "selectedMicLabel (snd (selectMicDevice p i (Granted l) ds w)) = l"
    by (simp add: selectMicDevice_eq selectedMicLabel_def micLabelForAudioTrack_def setup_fields
          fetch_granted newObject_fields)
  then have selected: "selectedMicDeviceId (snd (selectMicDevice p i (Granted l) ds w)) =
           map_option mic_value (find (\<lambda>d. mic_label d = l) (micDevices (fetchMicDevices ds w)))"
    by (simp add: selectedMicDeviceId_def micDeviceIdForMicLabel_find)
       (simp add: selectMicDevice_eq setup_fields fetchMicDevices_def)
  from eq idle none selectedMicLabel_granted [of p arg l w] fetched selected show ?thesis
    by blast
qed

theorem selectedMicDeviceId_derived_witness:
  "reachable desktop fresh_manager \<and>
   audioTrack fresh_manager = None \<and>
   selectedMicDeviceId fresh_manager = None \<and>
   selectedMicDeviceId (snd (selectMicDevice desktop ''b2'' (Granted ''Generic Mic'') vive_devices fresh_manager)) =
     Some ''b2'' \<and>
   selectedMicDeviceId (snd (selectMicDevice desktop ''b2'' (Granted ''Unlisted Mic'') vive_devices fresh_manager)) =
     None"
proof -
  have r: "reachable desktop fresh_manager"
    unfolding fresh_manager_def by (rule reachable.constructed)
  have a: "audioTrack fresh_manager = None"
    by (simp add: fresh_manager_def AudioManager_def)
  have f: "find (\<lambda>d. mic_label d = ''Generic Mic'') (micDevices (fetchMicDevices vive_devices fresh_manager)) =
             Some \<lparr>mic_value = ''b2'', mic_label = ''Generic Mic''\<rparr>"
    "find (\<lambda>d. mic_label d = ''Unlisted Mic'') (micDevices (fetchMicDevices vive_devices fresh_manager)) = None"
    by (simp_all add: fetchMicDevices_def vive_devices_def)
  note h1 = selectedMicDeviceId_derived [OF r, of None "''Generic Mic''" "''b2''" vive_devices]
  note h2 = selectedMicDeviceId_derived [OF r, of None "''Unlisted Mic''" "''b2''" vive_devices]
  from h1 a have "selectedMicDeviceId fresh_manager = None" by blast
  moreover from h1 f have "selectedMicDeviceId (snd (selectMicDevice desktop ''b2''
      (Granted ''Generic Mic'') vive_devices fresh_manager)) = Some ''b2''" by simp
  moreover from h2 f have "selectedMicDeviceId (snd (selectMicDevice desktop ''b2''
      (Granted ''Unlisted Mic'') vive_devices fresh_manager)) = None" by simp
  ultimately show ?thesis using r a by simp
qed

section \<open>Housekeeping after a selection\<close>

text \<open>
  Claim C9: with no active track, \<open>setupNewMediaStream\<close> only enumerates the devices: it
  leaves the store as it is, writes no patch and emits no event. With an active track
  whose label resolves, in the refreshed device list, to a non-empty device id, it writes
  that id to the settings as the last used microphone (the preferences stay) and then
  emits \<open>local-media-stream-created\<close>.
\<close>

theorem housekeeping_effects:
  "(audioTrack w = None \<longrightarrow>
      store (setupNewMediaStream ds w) = store w \<and>
      trace (setupNewMediaStream ds w) = trace w @ [EnumerateDevices] \<and>
      written (trace (setupNewMediaStream ds w)) = written (trace w) \<and>
      emitted (trace (setupNewMediaStream ds w)) = emitted (trace w)) \<and>
   (audioTrack w = Some t \<and>
    micDeviceIdForMicLabel (fetchMicDevices ds w) (track_label (tracks w t)) = Some d \<and> d \<noteq> [] \<longrightarrow>
      lastUsedMicDeviceId (settings (store (setupNewMediaStream ds w))) = Some d \<and>
      preferences (store (setupNewMediaStream ds w)) = preferences (store w) \<and>
      trace (setupNewMediaStream ds w) =
        trace w @ [EnumerateDevices, StoreUpdate (SettingsPatch d),
                   SceneEmit ''local-media-stream-created''])"
proof -
  have sel: "selectedMicLabel w = track_label (tracks w t)" if "audioTrack w = Some t"
    using that by (simp add: selectedMicLabel_def micLabelForAudioTrack_def)
  have p: "persisted ds w = Some d"
    if "audioTrack w = Some t"
      "micDeviceIdForMicLabel (fetchMicDevices ds w) (track_label (tracks w t)) = Some d" "d \<noteq> []"
    using that sel by (simp add: persisted_def)
  show ?thesis
    by (auto simp add: setup_trace setup_store written_def emitted_def p)
qed

theorem housekeeping_effects_witness:
  "audioTrack fresh_manager = None \<and>
   trace (setupNewMediaStream vive_devices fresh_manager) = [EnumerateDevices] \<and>
   store (setupNewMediaStream vive_devices fresh_manager) = store fresh_manager \<and>
   audioTrack granted_once = Some 0 \<and>
   micDeviceIdForMicLabel (fetchMicDevices vive_devices granted_once)
     (track_label (tracks granted_once 0)) = Some ''b2'' \<and>
   lastUsedMicDeviceId (settings (store (setupNewMediaStream vive_devices granted_once))) = Some ''b2'' \<and>
   written (trace (setupNewMediaStream vive_devices granted_once)) = [SettingsPatch ''b2''] \<and>
   emitted (trace (setupNewMediaStream vive_devices granted_once)) = [''local-media-stream-created'']"
proof -
  have a: "audioTrack fresh_manager = None" "trace fresh_manager = []"
    by (simp_all add: fresh_manager_def AudioManager_def)
  have g: "audioTrack granted_once = Some 0" "track_label (tracks granted_once 0) = ''Generic Mic''"
    by (simp_all add: granted_once_def fetch_granted fresh_manager_def AudioManager_def)
  have t: "trace granted_once =
             [GetUserMedia 0 (with_toggles desktop (preferences fresh_store) emptyAudio),
              AddStreamToOutboundAudio ''microphone'' (MediaStream 0)]"
    using desktop_plain
    by (simp add: granted_once_def fetch_trace fresh_manager_def AudioManager_def arg_ref_def
          arg_object_def)
  have m: "micDeviceIdForMicLabel (fetchMicDevices vive_devices granted_once) ''Generic Mic'' = Some ''b2''"
    by (simp add: micDeviceIdForMicLabel_def fetchMicDevices_def vive_devices_def)
  note h1 = housekeeping_effects [of fresh_manager vive_devices, THEN conjunct1]
  note h2 = housekeeping_effects [of granted_once vive_devices 0 "''b2''", THEN conjunct2]
  from h1 a have 1: "trace (setupNewMediaStream vive_devices fresh_manager) = [EnumerateDevices]"
    "store (setupNewMediaStream vive_devices fresh_manager) = store fresh_manager"
    by simp_all
  from h2 g m have 2:
    "lastUsedMicDeviceId (settings (store (setupNewMediaStream vive_devices granted_once))) = Some ''b2''"
    "trace (setupNewMediaStream vive_devices granted_once) =
        trace granted_once @ [EnumerateDevices, StoreUpdate (SettingsPatch ''b2''),
                   SceneEmit ''local-media-stream-created'']"
    by simp_all
  from 1 2 a g m t show ?thesis by (simp add: written_def emitted_def)
qed

section \<open>The constraints object is shared\<close>

text \<open>
  Claim C10: \<open>fetchAudioTrack\<close> writes \<open>echoCancellation\<close>, \<open>noiseSuppression\<close> and
  \<open>autoGainControl\<close> into the caller's constraints object itself (its device clause and
  every other object stay as they are, and no object is made), and does so before the
  capture request, which carries the object as written. On Oculus Browser the listener of
  a granted fetch holds that same object: a re-request reads the contents the object has
  when the track ends, whatever was written to it in between, and the listener registered
  on the replacement track holds the same object again.
\<close>

theorem constraints_mutated_in_place:
  "let w1 = snd (fetchAudioTrack p (Some c) resp w);
       t1 = nextTrack w
   in heap w1 c =
        (heap w c)\<lparr>audio := (audio (heap w c))
          \<lparr>echoCancellation := Some (enabled p (disableEchoCancellation (preferences (store w)))),
           noiseSuppression := Some (enabled p (disableNoiseSuppression (preferences (store w)))),
           autoGainControl := Some (enabled p (disableAutoGainControl (preferences (store w))))\<rparr>\<rparr> \<and>
      deviceId (audio (heap w1 c)) = deviceId (audio (heap w c)) \<and>
      (\<forall>r. r \<noteq> c \<longrightarrow> heap w1 r = heap w r) \<and>
      nextRef w1 = nextRef w \<and>
      (\<exists>before after. trace w1 = trace w @ before @ GetUserMedia c (heap w1 c) # after \<and>
                       requested before = []) \<and>
      (isOculus p \<and> resp \<noteq> Rejected \<longrightarrow>
         ended_listeners (tracks w1 t1) = [recreateAudioStream_closure c] \<and>
         (\<forall>v. trace (dispatch_ended t1 (Granted l2) (w1\<lparr>heap := (heap w1)(c := v)\<rparr>)) =
                trace w1 @ [GetUserMedia c v,
                            AddStreamToOutboundAudio ''microphone'' (MediaStream (Suc t1)),
                            SceneEmit ''local-media-stream-created'']) \<and>
         (\<forall>v. ended_listeners (tracks (dispatch_ended t1 (Granted l2) (w1\<lparr>heap := (heap w1)(c := v)\<rparr>)) (Suc t1)) =
                  [recreateAudioStream_closure c]))"
proof -
  define w1 where "w1 = snd (fetchAudioTrack p (Some c) resp w)"
  have h: "heap w1 = (heap w)(c := with_toggles p (preferences (store w)) (heap w c))"
    unfolding w1_def by (simp add: fetch_heap arg_ref_def arg_object_def)
  have h1: "heap w1 c =
        (heap w c)\<lparr>audio := (audio (heap w c))
          \<lparr>echoCancellation := Some (enabled p (disableEchoCancellation (preferences (store w)))),
           noiseSuppression := Some (enabled p (disableNoiseSuppression (preferences (store w)))),
           autoGainControl := Some (enabled p (disableAutoGainControl (preferences (store w))))\<rparr>\<rparr>"
    unfolding h by (simp add: with_toggles_def)
  have h2: "deviceId (audio (heap w1 c)) = deviceId (audio (heap w c))"
    unfolding h1 by simp
  have h3: "\<forall>r. r \<noteq> c \<longrightarrow> heap w1 r = heap w r"
    unfolding h by simp
  have n: "nextRef w1 = nextRef w"
    unfolding w1_def by (simp add: fetch_nextRef)
  let ?before = "(case audioTrack w of Some t \<Rightarrow> [TrackStop t] | None \<Rightarrow> [])
     @ (if isFirefoxReality p then [StoreUpdate (corrected p (preferences (store w)))] else [])"
  let ?after = "(case resp of Granted l \<Rightarrow> [AddStreamToOutboundAudio ''microphone'' (MediaStream (nextTrack w))]
                   | Rejected \<Rightarrow> [])"
  have "trace w1 = trace w @ ?before @ GetUserMedia c (heap w1 c) # ?after \<and> requested ?before = []"
    unfolding w1_def
    by (simp add: fetch_trace fetch_heap arg_ref_def arg_object_def requested_append
          split: option.splits)
  then have tr: "\<exists>before after. trace w1 = trace w @ before @ GetUserMedia c (heap w1 c) # after \<and>
                       requested before = []"
    by blast
  have hook: "ended_listeners (tracks w1 (nextTrack w)) = [recreateAudioStream_closure c] \<and>
         (\<forall>v. trace (dispatch_ended (nextTrack w) (Granted l2) (w1\<lparr>heap := (heap w1)(c := v)\<rparr>)) =
                trace w1 @ [GetUserMedia c v,
                            AddStreamToOutboundAudio ''microphone'' (MediaStream (Suc (nextTrack w))),
                            SceneEmit ''local-media-stream-created'']) \<and>
         (\<forall>v. ended_listeners (tracks (dispatch_ended (nextTrack w) (Granted l2)
                  (w1\<lparr>heap := (heap w1)(c := v)\<rparr>)) (Suc (nextTrack w))) =
                  [recreateAudioStream_closure c])"
    if "isOculus p" "resp \<noteq> Rejected"
  proof -
    from that(2) obtain l where resp: "resp = Granted l" by (cases resp) auto
    have l1: "ended_listeners (tracks w1 (nextTrack w)) = [recreateAudioStream_closure c]"
      and n1: "nextTrack w1 = Suc (nextTrack w)"
      unfolding w1_def resp using that(1) by (simp_all add: fetch_granted arg_ref_def)
    have l1': "ended_listeners (tracks (w1\<lparr>heap := (heap w1)(c := v)\<rparr>) (nextTrack w)) =
                 [recreateAudioStream_closure c]" for v
      using l1 by simp
    show ?thesis
      using l1 n1 by (simp add: dispatch_ended_armed [OF l1'] recreate_granted)
  qed
  show ?thesis
    unfolding Let_def w1_def [symmetric]
    using h1 h2 h3 n tr hook by blast
qed

theorem constraints_mutated_in_place_witness:
  "isOculus oculus_browser \<and>
   heap callers_object 0 = exact_constraints ''b2'' \<and>
   heap fetched_by_reference 0 =
     \<lparr>audio = \<lparr>deviceId = Some (exact [''b2'']), echoCancellation = Some True,
                noiseSuppression = Some True, autoGainControl = Some True\<rparr>\<rparr> \<and>
   requested (trace fetched_by_reference) = [heap fetched_by_reference 0] \<and>
   ended_listeners (tracks fetched_by_reference 0) = [recreateAudioStream_closure 0] \<and>
   requested (trace (dispatch_ended 0 (Granted ''Generic Mic'')
       (fetched_by_reference\<lparr>heap := (heap fetched_by_reference)(0 := emptyAudio)\<rparr>))) =
     [heap fetched_by_reference 0, emptyAudio]"
proof -
  have c: "heap callers_object 0 = exact_constraints ''b2''" "nextTrack callers_object = 0"
    "trace callers_object = []" "preferences (store callers_object) = preferences fresh_store"
    by (simp_all add: callers_object_def newObject_def fresh_manager_def AudioManager_def)
  have e: "enabled oculus_browser None"
    by (simp add: enabled_def isFirefoxReality_def oculus_browser_def)
  note h = constraints_mutated_in_place [of oculus_browser 0 "Granted ''Generic Mic''"
      callers_object "''Generic Mic''", unfolded Let_def, folded fetched_by_reference_def]
  from h [THEN conjunct1] c e
  have 1: "heap fetched_by_reference 0 =
     \<lparr>audio = \<lparr>deviceId = Some (exact [''b2'']), echoCancellation = Some True,
                noiseSuppression = Some True, autoGainControl = Some True\<rparr>\<rparr>"
    by (simp add: exact_constraints_def fresh_store_def)
  have 2: "requested (trace fetched_by_reference) = [heap fetched_by_reference 0]"
    unfolding fetched_by_reference_def
    by (simp add: fetch_requested fetch_heap arg_ref_def arg_object_def c)
  from h isOculus_oculus_browser c
  have 3: "ended_listeners (tracks fetched_by_reference 0) = [recreateAudioStream_closure 0]"
    and 4: "trace (dispatch_ended 0 (Granted ''Generic Mic'')
               (fetched_by_reference\<lparr>heap := (heap fetched_by_reference)(0 := emptyAudio)\<rparr>)) =
             trace fetched_by_reference @ [GetUserMedia 0 emptyAudio,
                            AddStreamToOutboundAudio ''microphone'' (MediaStream (Suc 0)),
                            SceneEmit ''local-media-stream-created'']"
    by simp_all
  from 1 2 3 4 c isOculus_oculus_browser show ?thesis
    by (simp add: requested_append)
qed

end
